theory Spec2Isabelle
  imports Main "HOL-Library.Sublist"
begin

section \<open>The manifest and the templates directory\<close>

text \<open>
  \<^verbatim>\<open>scripts/validate_templates.py\<close> reads \<^verbatim>\<open>index.json\<close>, a list of category
  objects, each with a list of template objects. The checks read the keys \<^verbatim>\<open>title\<close>,
  \<^verbatim>\<open>templates\<close>, \<^verbatim>\<open>name\<close> and \<^verbatim>\<open>mediaSubtype\<close> through \<^verbatim>\<open>dict.get\<close>, so every key
  may be absent: a field is \<open>None\<close> when the key is absent and \<open>Some v\<close> when it is present.
  Present fields hold what the annotation \<^verbatim>\<open>List[Dict]\<close> and the schema expect of them
  (strings, a list of objects). Strings are \<open>char list\<close>. The string operations of the
  script compare characters for equality, except \<^verbatim>\<open>str.isdigit\<close>, which Python decides
  from the Unicode database: it accepts the digits of every script, not only 0 to 9. On a
  string of ASCII characters \<open>isdigit\<close> below is decided by the model; on a string with a
  character beyond ASCII its answer is a parameter, so the model does not fix which
  characters beyond ASCII count as digits.
\<close>

record template =
  name :: "string option"
  mediaSubtype :: "string option"

record category =
  title :: "string option"
  templates :: "template list option"

type_synonym manifest = "category list"

text \<open>
  The templates directory, as the script sees it through its library calls:
  \<open>path_exists d p\<close> is \<^verbatim>\<open>(templates_dir / p).exists()\<close>, and \<open>file_names d\<close> are the names
  \<^verbatim>\<open>f.name for f in templates_dir.iterdir() if f.is_file()\<close>. One value of this type is one
  state of the disk; every function below reads a single such state. The third field is the
  library's answer about the file names that are not plain ASCII:
  \<open>isdigit_beyond_ascii d s\<close> is \<^verbatim>\<open>s.isdigit()\<close> for a string \<open>s\<close> that has a character
  beyond ASCII. It is kept with the other two because the check asks it only about parts of
  the names of the files of the directory.
\<close>

record directory =
  path_exists :: "string \<Rightarrow> bool"
  file_names :: "string list"
  isdigit_beyond_ascii :: "string \<Rightarrow> bool"

subsection \<open>\<^verbatim>\<open>dict.get\<close> with its defaults\<close>

definition get_name :: "template \<Rightarrow> string" where
  \<comment> \<open>\<^verbatim>\<open>template.get('name', '')\<close>\<close>
  "get_name t = (case name t of None \<Rightarrow> [] | Some n \<Rightarrow> n)"

definition get_mediaSubtype :: "template \<Rightarrow> string" where
  \<comment> \<open>\<^verbatim>\<open>template.get('mediaSubtype', '')\<close>\<close>
  "get_mediaSubtype t = (case mediaSubtype t of None \<Rightarrow> [] | Some s \<Rightarrow> s)"

definition get_templates :: "category \<Rightarrow> template list" where
  \<comment> \<open>\<^verbatim>\<open>category.get('templates', [])\<close>\<close>
  "get_templates c = (case templates c of None \<Rightarrow> [] | Some ts \<Rightarrow> ts)"

definition get_title :: "category \<Rightarrow> string" where
  \<comment> \<open>\<^verbatim>\<open>category.get('title')\<close> inside an f-string: an absent title prints as \<^verbatim>\<open>None\<close>\<close>
  "get_title c = (case title c of None \<Rightarrow> ''None'' | Some s \<Rightarrow> s)"

definition get_title_unknown :: "category \<Rightarrow> string" where
  \<comment> \<open>\<^verbatim>\<open>category.get('title', 'Unknown')\<close>\<close>
  "get_title_unknown c = (case title c of None \<Rightarrow> ''Unknown'' | Some s \<Rightarrow> s)"

subsection \<open>String operations of the script\<close>

definition startswith :: "string \<Rightarrow> string \<Rightarrow> bool" where
  "startswith s p = prefix p s"

definition endswith :: "string \<Rightarrow> string \<Rightarrow> bool" where
  "endswith s p = suffix p s"

definition is_digit_char :: "char \<Rightarrow> bool" where
  "is_digit_char c = (c \<in> set ''0123456789'')"

definition is_ascii_char :: "char \<Rightarrow> bool" where
  \<comment> \<open>the code is below 128: the top bit is clear\<close>
  "is_ascii_char c = (\<not> digit7 c)"

definition isdigit :: "(string \<Rightarrow> bool) \<Rightarrow> string \<Rightarrow> bool" where
  \<comment> \<open>\<^verbatim>\<open>str.isdigit\<close>: false on the empty string; on an ASCII string, true when every
      character is one of 0 to 9; on a string with a character beyond ASCII, what the Unicode
      database says, given by \<open>beyond_ascii\<close>\<close>
  "isdigit beyond_ascii s =
     (s \<noteq> [] \<and> (if list_all is_ascii_char s then list_all is_digit_char s else beyond_ascii s))"

definition split_dot_first :: "string \<Rightarrow> string" where
  \<comment> \<open>\<^verbatim>\<open>s.split('.')[0]\<close>: the part before the first dot, all of \<open>s\<close> when it has none\<close>
  "split_dot_first s = takeWhile (\<lambda>c. c \<noteq> CHR ''.'') s"

function replace :: "string \<Rightarrow> string \<Rightarrow> string \<Rightarrow> string" where
  \<comment> \<open>\<^verbatim>\<open>s.replace(old, new)\<close>: every non-overlapping occurrence, scanning from the left\<close>
  "replace [] old new = (if old = [] then new else [])"
| "replace (c # cs) old new =
     (if old = [] then new @ c # replace cs old new
      else if prefix old (c # cs) then new @ replace (drop (length old) (c # cs)) old new
      else c # replace cs old new)"
  by pat_completeness auto
termination
  by (relation "measure (\<lambda>(s, old, new). length s)") (auto simp: neq_Nil_conv)

definition contains :: "string \<Rightarrow> string \<Rightarrow> bool" where
  \<comment> \<open>\<^verbatim>\<open>sub in s\<close>\<close>
  "contains s sub = list_ex (prefix sub) (suffixes s)"

definition digit_char :: "nat \<Rightarrow> char" where
  "digit_char n = ''0123456789'' ! (n mod 10)"

fun str_nat :: "nat \<Rightarrow> string" where
  \<comment> \<open>\<^verbatim>\<open>str(i)\<close> of a non-negative integer, as an f-string prints it\<close>
  "str_nat n = (if n < 10 then [digit_char n] else str_nat (n div 10) @ [digit_char (n mod 10)])"

fun join :: "string \<Rightarrow> string list \<Rightarrow> string" where
  \<comment> \<open>\<^verbatim>\<open>sep.join(parts)\<close>\<close>
  "join sep [] = []"
| "join sep [p] = p"
| "join sep (p # q # ps) = p @ sep @ join sep (q # ps)"

definition set_add :: "string \<Rightarrow> string list \<Rightarrow> string list" where
  \<comment> \<open>\<^verbatim>\<open>s.add(x)\<close> on a set kept as a duplicate-free list\<close>
  "set_add x xs = (if x \<in> set xs then xs else xs @ [x])"

section \<open>\<^verbatim>\<open>check_file_consistency\<close>\<close>

text \<open>
  The variables the first loop of \<^verbatim>\<open>check_file_consistency\<close> updates. The two Python sets
  are duplicate-free lists in insertion order; Python fixes no iteration order for a set,
  so the theorems below speak of membership and of how often a message occurs, never of
  the position of a message that comes from iterating a set. \<open>probes\<close> is the trace of the
  \<^verbatim>\<open>thumbnail_path.exists()\<close> calls of the loop, in the order they are made.
\<close>

record collected =
  errors :: "string list"
  referenced_workflows :: "string list"
  referenced_thumbnails :: "string list"
  probes :: "string list"

definition missing_name_msg :: "category \<Rightarrow> string" where
  "missing_name_msg c = ''Template in category '' @ [CHR 0x27] @ get_title c @ [CHR 0x27] @ '' missing name''"

definition workflow_not_found_msg :: "string \<Rightarrow> string" where
  "workflow_not_found_msg w = ''Referenced workflow file not found: '' @ w"

definition thumbnail_not_found_msg :: "string \<Rightarrow> string" where
  "thumbnail_not_found_msg t = ''Referenced thumbnail file not found: '' @ t"

definition workflow_orphan_msg :: "string \<Rightarrow> string" where
  "workflow_orphan_msg f = ''Workflow file not referenced in index.json: '' @ f"

definition media_orphan_msg :: "string \<Rightarrow> string" where
  "media_orphan_msg f = ''Media file not referenced in index.json: '' @ f"

definition thumbnail_file :: "string \<Rightarrow> nat \<Rightarrow> string \<Rightarrow> string" where
  \<comment> \<open>\<^verbatim>\<open>f"{name}-{i}.{media_subtype}"\<close>\<close>
  "thumbnail_file nm i media_subtype = nm @ ''-'' @ str_nat i @ ''.'' @ media_subtype"

primrec probe_thumbnails :: "directory \<Rightarrow> string \<Rightarrow> string \<Rightarrow> nat list \<Rightarrow> collected \<Rightarrow> collected" where
  \<comment> \<open>\<^verbatim>\<open>for i in range(1, 10): ...\<close>, the range given as a list\<close>
  "probe_thumbnails d nm media_subtype [] st = st"
| "probe_thumbnails d nm media_subtype (i # rest) st =
     (let thumbnail = thumbnail_file nm i media_subtype;
          st1 = st\<lparr>probes := probes st @ [thumbnail]\<rparr>
      in probe_thumbnails d nm media_subtype rest
           (if path_exists d thumbnail
            then st1\<lparr>referenced_thumbnails := set_add thumbnail (referenced_thumbnails st1)\<rparr>
            else st1))"

definition process_template :: "directory \<Rightarrow> category \<Rightarrow> template \<Rightarrow> collected \<Rightarrow> collected" where
  \<comment> \<open>the body of the inner loop, lines 54 to 71\<close>
  "process_template d c t st =
     (let nm = get_name t in
      if nm = [] then st\<lparr>errors := errors st @ [missing_name_msg c]\<rparr>
      else
        let workflow_file = nm @ ''.json'';
            st1 = st\<lparr>referenced_workflows := set_add workflow_file (referenced_workflows st)\<rparr>;
            media_subtype = get_mediaSubtype t
        in if media_subtype \<noteq> [] then probe_thumbnails d nm media_subtype [1..<10] st1 else st1)"

primrec process_templates :: "directory \<Rightarrow> category \<Rightarrow> template list \<Rightarrow> collected \<Rightarrow> collected" where
  "process_templates d c [] st = st"
| "process_templates d c (t # ts) st = process_templates d c ts (process_template d c t st)"

primrec process_categories :: "directory \<Rightarrow> manifest \<Rightarrow> collected \<Rightarrow> collected" where
  "process_categories d [] st = st"
| "process_categories d (c # cs) st =
     process_categories d cs (process_templates d c (get_templates c) st)"

definition collected_init :: collected where
  "collected_init = \<lparr>errors = [], referenced_workflows = [], referenced_thumbnails = [], probes = []\<rparr>"

definition special_files :: "string list" where
  "special_files = [''index.json'', ''index.schema.json'', ''.gitignore'', ''README.md'']"

primrec is_referenced :: "(string \<Rightarrow> bool) \<Rightarrow> string list \<Rightarrow> string \<Rightarrow> bool" where
  \<comment> \<open>the loop of lines 106 to 110 with its \<^verbatim>\<open>break\<close>\<close>
  "is_referenced beyond_ascii [] media_file = False"
| "is_referenced beyond_ascii (template_name # rest) media_file =
     (if startswith media_file (template_name @ ''-'')
         \<and> isdigit beyond_ascii (split_dot_first (drop (length template_name + 1) media_file))
      then True
      else is_referenced beyond_ascii rest media_file)"

definition check_file_consistency :: "manifest \<Rightarrow> directory \<Rightarrow> bool \<times> string list \<times> string list" where
  "check_file_consistency index_data d =
     (let st = process_categories d index_data collected_init;
          errors1 = errors st
            @ map workflow_not_found_msg
                (filter (\<lambda>workflow. \<not> path_exists d workflow) (referenced_workflows st));
          errors2 = errors1
            @ map thumbnail_not_found_msg
                (filter (\<lambda>thumbnail. \<not> path_exists d thumbnail) (referenced_thumbnails st));
          all_files = filter (\<lambda>f. f \<notin> set special_files) (remdups (file_names d));
          workflow_files = filter (\<lambda>f. endswith f ''.json'') all_files;
          media_files = filter (\<lambda>f. f \<notin> set workflow_files) all_files;
          orphaned_workflows = filter (\<lambda>f. f \<notin> set (referenced_workflows st)) workflow_files;
          warnings1 = map workflow_orphan_msg orphaned_workflows;
          template_names = map (\<lambda>w. replace w ''.json'' []) (referenced_workflows st);
          potential_orphans =
            filter (\<lambda>media_file. \<not> is_referenced (isdigit_beyond_ascii d) template_names media_file)
              media_files;
          warnings2 = warnings1 @ map media_orphan_msg potential_orphans
      in (errors2 = [], errors2, warnings2))"

section \<open>\<^verbatim>\<open>check_duplicate_names\<close>\<close>

definition duplicate_msg :: "string \<Rightarrow> string \<Rightarrow> string \<Rightarrow> string" where
  "duplicate_msg nm first_title category_title =
     ''Duplicate template name '' @ [CHR 0x27] @ nm @ [CHR 0x27] @ '' found in categories ''
       @ [CHR 0x27] @ first_title @ [CHR 0x27] @ '' and '' @ [CHR 0x27] @ category_title @ [CHR 0x27]"

text \<open>The state of the loop: the error list and the dictionary \<^verbatim>\<open>seen_names\<close>.\<close>

type_synonym seen = "string list \<times> (string \<rightharpoonup> string)"

definition duplicate_step :: "string \<Rightarrow> template \<Rightarrow> seen \<Rightarrow> seen" where
  \<comment> \<open>the body of the inner loop, lines 129 to 136\<close>
  "duplicate_step category_title t st =
     (let nm = get_name t in
      case snd st nm of
        Some first_title \<Rightarrow> (fst st @ [duplicate_msg nm first_title category_title], snd st)
      | None \<Rightarrow> (fst st, (snd st)(nm \<mapsto> category_title)))"

primrec duplicate_templates :: "string \<Rightarrow> template list \<Rightarrow> seen \<Rightarrow> seen" where
  "duplicate_templates category_title [] st = st"
| "duplicate_templates category_title (t # ts) st =
     duplicate_templates category_title ts (duplicate_step category_title t st)"

primrec duplicate_categories :: "manifest \<Rightarrow> seen \<Rightarrow> seen" where
  "duplicate_categories [] st = st"
| "duplicate_categories (c # cs) st =
     duplicate_categories cs (duplicate_templates (get_title_unknown c) (get_templates c) st)"

definition check_duplicate_names :: "manifest \<Rightarrow> bool \<times> string list" where
  "check_duplicate_names index_data =
     (let errs = fst (duplicate_categories index_data ([], Map.empty)) in (errs = [], errs))"

section \<open>\<^verbatim>\<open>check_required_thumbnails\<close>\<close>

definition missing_thumbnail_msg :: "string \<Rightarrow> string \<Rightarrow> string" where
  "missing_thumbnail_msg nm media_subtype = ''Missing required thumbnail: '' @ nm @ ''-1.'' @ media_subtype"

definition required_step :: "directory \<Rightarrow> template \<Rightarrow> string list \<Rightarrow> string list" where
  \<comment> \<open>the body of the inner loop, lines 147 to 156\<close>
  "required_step d t errs =
     (let nm = get_name t; media_subtype = get_mediaSubtype t in
      if nm = [] \<or> media_subtype = [] then errs
      else if \<not> path_exists d (nm @ ''-1.'' @ media_subtype)
      then errs @ [missing_thumbnail_msg nm media_subtype]
      else errs)"

primrec required_templates :: "directory \<Rightarrow> template list \<Rightarrow> string list \<Rightarrow> string list" where
  "required_templates d [] errs = errs"
| "required_templates d (t # ts) errs = required_templates d ts (required_step d t errs)"

primrec required_categories :: "directory \<Rightarrow> manifest \<Rightarrow> string list \<Rightarrow> string list" where
  "required_categories d [] errs = errs"
| "required_categories d (c # cs) errs =
     required_categories d cs (required_templates d (get_templates c) errs)"

definition check_required_thumbnails :: "manifest \<Rightarrow> directory \<Rightarrow> bool \<times> string list" where
  "check_required_thumbnails index_data d =
     (let errs = required_categories d index_data [] in (errs = [], errs))"

section \<open>\<^verbatim>\<open>validate_schema\<close> and \<^verbatim>\<open>main\<close>\<close>

text \<open>
  \<^verbatim>\<open>jsonschema.validate\<close> is a library call. It returns, raises \<^verbatim>\<open>ValidationError\<close> (with
  a message and a path, whose elements are given here as \<^verbatim>\<open>str\<close> prints them), or raises
  something else, such as \<^verbatim>\<open>SchemaError\<close>.
\<close>

datatype validation = Valid | ValidationError string "string list" | OtherException string

text \<open>
  What \<^verbatim>\<open>main\<close> reads: the templates directory, the result of \<^verbatim>\<open>load_json(index_path)\<close>
  and of \<^verbatim>\<open>load_json(schema_path)\<close> (\<open>Inl\<close> holds \<^verbatim>\<open>str(e)\<close> of the exception raised, a
  loaded schema is given by what \<^verbatim>\<open>jsonschema.validate\<close> does with it), and whether
  \<^verbatim>\<open>GITHUB_ACTIONS\<close> is \<^verbatim>\<open>true\<close>.
\<close>

record world =
  templates_dir :: directory
  index_json :: "string + manifest"
  index_schema_json :: "string + (manifest \<Rightarrow> validation)"
  is_github_actions :: bool

definition validate_schema :: "manifest \<Rightarrow> string + (manifest \<Rightarrow> validation) \<Rightarrow> bool \<times> string list" where
  "validate_schema index_data schema_file =
     (case schema_file of
        Inl e \<Rightarrow> (False, [''Unexpected error during validation: '' @ e])
      | Inr schema \<Rightarrow>
          (case schema index_data of
             Valid \<Rightarrow> (True, [])
           | ValidationError message path \<Rightarrow>
               (False, [''Schema validation error: '' @ message]
                         @ (if path \<noteq> [] then [''  at path: '' @ join ''.'' path] else []))
           | OtherException e \<Rightarrow> (False, [''Unexpected error during validation: '' @ e])))"

text \<open>One constructor for each \<^verbatim>\<open>print\<close> call of \<^verbatim>\<open>main\<close>, with the text that varies.\<close>

datatype line =
    Banner
  | TemplatesDirectory
  | IndexNotFound
  | SchemaNotFound
  | IndexLoadError string
  | StageTitle nat
  | StagePassed nat
  | StagePassedWithWarnings nat
  | StageFailed nat
  | WarningsTitle
  | WarningLine string
  | WarningAnnotation string
  | SummaryRule
  | ValidationFailed nat
  | ErrorLine string
  | ErrorAnnotation string
  | AllPassedWithWarnings nat
  | AllPassed

definition main :: "world \<Rightarrow> line list \<times> int" where
  \<comment> \<open>the lines printed and the value returned, which \<^verbatim>\<open>sys.exit\<close> makes the exit code\<close>
  "main w =
     (let d = templates_dir w;
          gh = is_github_actions w;
          out0 = [Banner, TemplatesDirectory]
      in
      if \<not> path_exists d ''index.json'' then (out0 @ [IndexNotFound], 1)
      else if \<not> path_exists d ''index.schema.json'' then (out0 @ [SchemaNotFound], 1)
      else
        case index_json w of
          Inl e \<Rightarrow> (out0 @ [IndexLoadError e], 1)
        | Inr index_data \<Rightarrow>
            let r1 = validate_schema index_data (index_schema_json w);
                out1 = out0 @ [StageTitle 1, if fst r1 then StagePassed 1 else StageFailed 1];
                all_errors1 = (if fst r1 then [] else snd r1);
                r2 = check_file_consistency index_data d;
                valid2 = fst r2;
                warnings2 = snd (snd r2);
                out2 = out1 @ [StageTitle 2,
                         if valid2 \<and> warnings2 = [] then StagePassed 2
                         else if valid2 \<and> warnings2 \<noteq> [] then StagePassedWithWarnings 2
                         else StageFailed 2];
                all_errors2 = all_errors1 @ fst (snd r2);
                all_warnings = warnings2;
                r3 = check_duplicate_names index_data;
                out3 = out2 @ [StageTitle 3, if fst r3 then StagePassed 3 else StageFailed 3];
                all_errors3 = (if fst r3 then all_errors2 else all_errors2 @ snd r3);
                r4 = check_required_thumbnails index_data d;
                out4 = out3 @ [StageTitle 4, if fst r4 then StagePassed 4 else StageFailed 4];
                all_errors = (if fst r4 then all_errors3 else all_errors3 @ snd r4);
                out5 = out4 @
                  (if all_warnings \<noteq> []
                   then WarningsTitle #
                     concat (map (\<lambda>warning. WarningLine warning #
                                   (if gh then [WarningAnnotation warning] else [])) all_warnings)
                   else []);
                out6 = out5 @ [SummaryRule]
            in
            if all_errors \<noteq> []
            then (out6 @ ValidationFailed (length all_errors) #
                    concat (map (\<lambda>error. ErrorLine error #
                                  (if gh then [ErrorAnnotation error] else [])) all_errors), 1)
            else (out6 @ [if all_warnings \<noteq> [] then AllPassedWithWarnings (length all_warnings)
                          else AllPassed], 0))"

section \<open>Views of the manifest and of a run used in the statements\<close>

definition entries :: "manifest \<Rightarrow> (category \<times> template) list" where
  \<comment> \<open>every template with its category, in the order the nested loops visit them\<close>
  "entries m = concat (map (\<lambda>c. map (Pair c) (get_templates c)) m)"

definition template_thumbnails :: "directory \<Rightarrow> template \<Rightarrow> string set" where
  \<comment> \<open>the numbered thumbnails 1 to 9 of a template that exist\<close>
  "template_thumbnails d t =
     (if get_name t = [] \<or> get_mediaSubtype t = [] then {}
      else {thumbnail_file (get_name t) i (get_mediaSubtype t) | i.
              1 \<le> i \<and> i \<le> 9 \<and> path_exists d (thumbnail_file (get_name t) i (get_mediaSubtype t))})"

definition first_seen :: "(category \<times> template) list \<Rightarrow> string \<rightharpoonup> string" where
  \<comment> \<open>for every name, the title (as \<^verbatim>\<open>check_duplicate_names\<close> reads it) of the category of its first entry\<close>
  "first_seen es = map_of (map (\<lambda>(c, t). (get_name t, get_title_unknown c)) es)"

definition repeats :: "(category \<times> template) list \<Rightarrow> (category \<times> template) list" where
  \<comment> \<open>the entries whose name some earlier entry has, in order\<close>
  "repeats es =
     map snd (filter (\<lambda>(i, c, t). get_name t \<in> set (map (\<lambda>(c, t). get_name t) (take i es)))
                (enumerate 0 es))"

definition lacks_thumbnail :: "directory \<Rightarrow> template \<Rightarrow> bool" where
  \<comment> \<open>the condition under which \<^verbatim>\<open>check_required_thumbnails\<close> reports a template\<close>
  "lacks_thumbnail d t =
     (get_name t \<noteq> [] \<and> get_mediaSubtype t \<noteq> []
      \<and> \<not> path_exists d (get_name t @ ''-1.'' @ get_mediaSubtype t))"

definition all_errors :: "world \<Rightarrow> manifest \<Rightarrow> string list" where
  \<comment> \<open>the errors of the four checks, in the order \<^verbatim>\<open>main\<close> collects them\<close>
  "all_errors w index_data =
     snd (validate_schema index_data (index_schema_json w))
     @ fst (snd (check_file_consistency index_data (templates_dir w)))
     @ snd (check_duplicate_names index_data)
     @ snd (check_required_thumbnails index_data (templates_dir w))"

section \<open>A small catalogue used to run the checks\<close>

text \<open>
  No file name of the catalogue has a character beyond ASCII, so \<open>isdigit_beyond_ascii\<close> is
  never read in these directories, except in \<open>ex_directory_superscript\<close>: there one file
  name has the character \<^verbatim>\<open>U+00B2\<close> (superscript two, a digit for \<^verbatim>\<open>str.isdigit\<close>), written
  as the one \<open>char\<close> with that code.
\<close>

definition ex_directory :: directory where
  "ex_directory =
     \<lparr>path_exists = (\<lambda>p. p \<in> set [''index.json'', ''index.schema.json'', ''flux_basic.json'',
                                     ''flux_basic-1.webp'', ''orphan.png'']),
      file_names = [''index.json'', ''index.schema.json'', ''flux_basic.json'',
                    ''flux_basic-1.webp'', ''orphan.png''],
      isdigit_beyond_ascii = (\<lambda>s. False)\<rparr>"

definition ex_category_A :: category where
  "ex_category_A =
     \<lparr>title = Some ''A'', templates = Some
        [\<lparr>name = Some ''flux_basic'', mediaSubtype = Some ''webp''\<rparr>,
         \<lparr>name = None, mediaSubtype = Some ''webp''\<rparr>,
         \<lparr>name = Some ''sdxl'', mediaSubtype = Some ''webp''\<rparr>]\<rparr>"

definition ex_category_bare :: category where
  "ex_category_bare = \<lparr>title = None, templates = None\<rparr>"

definition ex_category_B :: category where
  "ex_category_B =
     \<lparr>title = Some ''B'', templates = Some
        [\<lparr>name = Some ''flux_basic'', mediaSubtype = None\<rparr>,
         \<lparr>name = Some [], mediaSubtype = None\<rparr>]\<rparr>"

definition ex_manifest :: manifest where
  "ex_manifest = [ex_category_A, ex_category_bare, ex_category_B]"

definition ex_category_ok :: category where
  "ex_category_ok =
     \<lparr>title = Some ''A'', templates = Some [\<lparr>name = Some ''flux_basic'', mediaSubtype = Some ''webp''\<rparr>]\<rparr>"

definition ex_world_ok :: world where
  "ex_world_ok =
     \<lparr>templates_dir = ex_directory, index_json = Inr [ex_category_ok],
      index_schema_json = Inr (\<lambda>instance. Valid), is_github_actions = False\<rparr>"

definition ex_world_errors :: world where
  "ex_world_errors =
     \<lparr>templates_dir = ex_directory, index_json = Inr ex_manifest,
      index_schema_json = Inr (\<lambda>instance. ValidationError ''None is not of type 'string' '' [''0'', ''title'']),
      is_github_actions = True\<rparr>"

definition ex_world_bad_schema :: world where
  "ex_world_bad_schema =
     \<lparr>templates_dir = ex_directory, index_json = Inr [ex_category_ok],
      index_schema_json = Inl ''Expecting value: line 1 column 1 (char 0)'',
      is_github_actions = False\<rparr>"

definition ex_world_bad_index :: world where
  "ex_world_bad_index =
     \<lparr>templates_dir = ex_directory, index_json = Inl ''Expecting value: line 1 column 1 (char 0)'',
      index_schema_json = Inr (\<lambda>instance. Valid), is_github_actions = False\<rparr>"

definition ex_world_no_index :: world where
  "ex_world_no_index =
     \<lparr>templates_dir = \<lparr>path_exists = (\<lambda>p. p = ''index.schema.json''), file_names = [''index.schema.json''],
      isdigit_beyond_ascii = (\<lambda>s. False)\<rparr>,
      index_json = Inl ''No such file or directory'',
      index_schema_json = Inr (\<lambda>instance. Valid), is_github_actions = False\<rparr>"

definition ex_world_no_schema :: world where
  "ex_world_no_schema =
     \<lparr>templates_dir = \<lparr>path_exists = (\<lambda>p. p = ''index.json''), file_names = [''index.json''],
      isdigit_beyond_ascii = (\<lambda>s. False)\<rparr>,
      index_json = Inr [],
      index_schema_json = Inl ''No such file or directory'', is_github_actions = False\<rparr>"

definition ex_category_B2 :: category where
  "ex_category_B2 =
     \<lparr>title = Some ''B'', templates = Some
        [\<lparr>name = Some ''sdxl'', mediaSubtype = Some ''webp''\<rparr>,
         \<lparr>name = Some ''flux_basic'', mediaSubtype = Some ''png''\<rparr>]\<rparr>"

definition ex_directory_png :: directory where
  "ex_directory_png =
     \<lparr>path_exists = (\<lambda>p. p \<in> set [''index.json'', ''index.schema.json'', ''flux_basic.json'',
                                     ''flux_basic-1.png'']),
      file_names = [''index.json'', ''index.schema.json'', ''flux_basic.json'', ''flux_basic-1.png''],
      isdigit_beyond_ascii = (\<lambda>s. False)\<rparr>"

definition ex_directory_superscript :: directory where
  "ex_directory_superscript =
     \<lparr>path_exists = (\<lambda>p. p \<in> set [''index.json'', ''index.schema.json'', ''flux_basic.json'',
                                     ''flux_basic-'' @ [CHR 0xB2] @ ''.png'']),
      file_names = [''index.json'', ''index.schema.json'', ''flux_basic.json'',
                    ''flux_basic-'' @ [CHR 0xB2] @ ''.png''],
      isdigit_beyond_ascii = (\<lambda>s. s = [CHR 0xB2])\<rparr>"

definition ex_category_json :: category where
  "ex_category_json =
     \<lparr>title = Some ''A'', templates = Some [\<lparr>name = Some ''a'', mediaSubtype = Some ''json''\<rparr>]\<rparr>"

definition ex_directory_json :: directory where
  "ex_directory_json =
     \<lparr>path_exists = (\<lambda>p. p \<in> set [''index.json'', ''index.schema.json'', ''a.json'', ''a-1.json'', ''a-10.json'']),
      file_names = [''index.json'', ''index.schema.json'', ''a.json'', ''a-1.json'', ''a-10.json''],
      isdigit_beyond_ascii = (\<lambda>s. False)\<rparr>"

definition ex_directory_ten :: directory where
  "ex_directory_ten =
     \<lparr>path_exists = (\<lambda>p. p \<in> set [''index.json'', ''index.schema.json'', ''flux_basic.json'',
                                     ''flux_basic-1.webp'', ''flux_basic-10.webp'']),
      file_names = [''index.json'', ''index.schema.json'', ''flux_basic.json'',
                    ''flux_basic-1.webp'', ''flux_basic-10.webp''],
      isdigit_beyond_ascii = (\<lambda>s. False)\<rparr>"

section \<open>Properties of the loops\<close>

declare str_nat.simps [simp del]

subsection \<open>The first loop of \<^verbatim>\<open>check_file_consistency\<close>\<close>

lemma entries_Nil: "entries [] = []"
  by (simp add: entries_def)

lemma entries_Cons: "entries (c # cs) = map (Pair c) (get_templates c) @ entries cs"
  by (simp add: entries_def)

lemma entries_append: "entries (m1 @ m2) = entries m1 @ entries m2"
  by (simp add: entries_def)

lemma entries_skip: "get_templates c = [] \<Longrightarrow> entries (m1 @ c # m2) = entries (m1 @ m2)"
  by (simp add: entries_append entries_Cons)

lemma snd_entries: "map snd (entries m) = concat (map get_templates m)"
  by (induction m) (simp_all add: entries_Nil entries_Cons comp_def)

lemma nameless_iff: "(get_name t = []) = (name t = None \<or> name t = Some [])"
  by (auto simp: get_name_def split: option.splits)

lemma process_templates_fold:
  "process_templates d c ts st = fold (\<lambda>(c, t). process_template d c t) (map (Pair c) ts) st"
  by (induction ts arbitrary: st) simp_all

lemma process_categories_fold:
  "process_categories d m st = fold (\<lambda>(c, t). process_template d c t) (entries m) st"
  by (induction m arbitrary: st) (simp_all add: entries_Nil entries_Cons process_templates_fold)

lemma set_set_add: "set (set_add x xs) = insert x (set xs)"
  by (auto simp: set_add_def)

lemma distinct_set_add: "distinct xs \<Longrightarrow> distinct (set_add x xs)"
  by (simp add: set_add_def)

lemma str_nat_10: "str_nat 10 = ''10''"
  by (simp add: str_nat.simps digit_char_def)

lemma str_nat_digit: "i < 10 \<Longrightarrow> str_nat i = [digit_char i]"
  by (simp add: str_nat.simps)

lemma tenth_not_probed:
  "thumbnail_file nm 10 s \<notin> set (map (\<lambda>i. thumbnail_file nm i s) [1..<10])"
  by (auto simp: thumbnail_file_def str_nat_10 str_nat_digit)

lemma probe_errors: "errors (probe_thumbnails d nm s is st) = errors st"
  by (induction "is" arbitrary: st) (simp_all add: Let_def)

lemma probe_workflows:
  "referenced_workflows (probe_thumbnails d nm s is st) = referenced_workflows st"
  by (induction "is" arbitrary: st) (simp_all add: Let_def)

lemma probe_probes:
  "probes (probe_thumbnails d nm s is st) = probes st @ map (\<lambda>i. thumbnail_file nm i s) is"
  by (induction "is" arbitrary: st) (simp_all add: Let_def)

lemma probe_thumbnails_set:
  "set (referenced_thumbnails (probe_thumbnails d nm s is st)) =
     set (referenced_thumbnails st) \<union>
     {thumbnail_file nm i s | i. i \<in> set is \<and> path_exists d (thumbnail_file nm i s)}"
  by (induction "is" arbitrary: st) (auto simp: Let_def set_set_add)

lemma probe_thumbnails_distinct:
  "distinct (referenced_thumbnails st) \<Longrightarrow>
   distinct (referenced_thumbnails (probe_thumbnails d nm s is st))"
  by (induction "is" arbitrary: st) (simp_all add: Let_def distinct_set_add)

lemma process_template_errors:
  "errors (process_template d c t st) =
     errors st @ (if get_name t = [] then [missing_name_msg c] else [])"
  by (simp add: process_template_def Let_def probe_errors)

lemma process_template_workflows:
  "set (referenced_workflows (process_template d c t st)) =
     set (referenced_workflows st) \<union> (if get_name t = [] then {} else {get_name t @ ''.json''})"
  by (simp add: process_template_def Let_def probe_workflows set_set_add)

lemma process_template_workflows_distinct:
  "distinct (referenced_workflows st) \<Longrightarrow>
   distinct (referenced_workflows (process_template d c t st))"
  by (simp add: process_template_def Let_def probe_workflows distinct_set_add)

lemma process_template_thumbnails:
  "set (referenced_thumbnails (process_template d c t st)) =
     set (referenced_thumbnails st) \<union> template_thumbnails d t"
  by (auto simp: process_template_def Let_def probe_thumbnails_set template_thumbnails_def)

lemma process_template_thumbnails_distinct:
  "distinct (referenced_thumbnails st) \<Longrightarrow>
   distinct (referenced_thumbnails (process_template d c t st))"
  by (simp add: process_template_def Let_def probe_thumbnails_distinct)

lemma collect_errors:
  "errors (fold (\<lambda>(c, t). process_template d c t) es st) =
     errors st @ map (\<lambda>(c, t). missing_name_msg c) (filter (\<lambda>(c, t). get_name t = []) es)"
  by (induction es arbitrary: st) (auto simp: process_template_errors)

lemma collect_workflows:
  "set (referenced_workflows (fold (\<lambda>(c, t). process_template d c t) es st)) =
     set (referenced_workflows st) \<union>
     {get_name t @ ''.json'' | t. t \<in> snd ` set es \<and> get_name t \<noteq> []}"
  by (induction es arbitrary: st) (auto simp: process_template_workflows split: if_splits)

lemma collect_workflows_distinct:
  "distinct (referenced_workflows st) \<Longrightarrow>
   distinct (referenced_workflows (fold (\<lambda>(c, t). process_template d c t) es st))"
  by (induction es arbitrary: st) (auto simp: process_template_workflows_distinct)

lemma collect_thumbnails:
  "set (referenced_thumbnails (fold (\<lambda>(c, t). process_template d c t) es st)) =
     set (referenced_thumbnails st) \<union> (\<Union>t \<in> snd ` set es. template_thumbnails d t)"
  by (induction es arbitrary: st) (auto simp: process_template_thumbnails)

lemma collect_thumbnails_distinct:
  "distinct (referenced_thumbnails st) \<Longrightarrow>
   distinct (referenced_thumbnails (fold (\<lambda>(c, t). process_template d c t) es st))"
  by (induction es arbitrary: st) (auto simp: process_template_thumbnails_distinct)

lemma template_thumbnails_exist: "x \<in> template_thumbnails d t \<Longrightarrow> path_exists d x"
  by (auto simp: template_thumbnails_def split: if_splits)

subsection \<open>Errors and warnings of \<^verbatim>\<open>check_file_consistency\<close>\<close>

lemma consistency_errors:
  "fst (snd (check_file_consistency m d)) =
     errors (process_categories d m collected_init)
     @ map workflow_not_found_msg
         (filter (\<lambda>workflow. \<not> path_exists d workflow)
            (referenced_workflows (process_categories d m collected_init)))"
proof -
  have "\<forall>thumbnail \<in> set (referenced_thumbnails (process_categories d m collected_init)). path_exists d thumbnail"
    by (auto simp: process_categories_fold collect_thumbnails collected_init_def
             dest: template_thumbnails_exist)
  then have "filter (\<lambda>thumbnail. \<not> path_exists d thumbnail)
      (referenced_thumbnails (process_categories d m collected_init)) = []"
    by (simp add: filter_empty_conv)
  then show ?thesis by (simp add: check_file_consistency_def Let_def)
qed

lemma consistency_errors_existing:
  assumes "path_exists d f"
  shows "workflow_not_found_msg f \<notin> set (fst (snd (check_file_consistency m d)))"
    and "thumbnail_not_found_msg f \<notin> set (fst (snd (check_file_consistency m d)))"
proof -
  have e: "errors (process_categories d m collected_init) =
      map (\<lambda>(c, t). missing_name_msg c) (filter (\<lambda>(c, t). get_name t = []) (entries m))"
    by (simp add: process_categories_fold collect_errors collected_init_def)
  show "workflow_not_found_msg f \<notin> set (fst (snd (check_file_consistency m d)))"
    unfolding consistency_errors e using assms
    by (auto simp: workflow_not_found_msg_def missing_name_msg_def)
  show "thumbnail_not_found_msg f \<notin> set (fst (snd (check_file_consistency m d)))"
    unfolding consistency_errors e
    by (auto simp: workflow_not_found_msg_def thumbnail_not_found_msg_def missing_name_msg_def)
qed

lemma is_referenced_iff:
  "is_referenced b names f \<longleftrightarrow>
     (\<exists>tn \<in> set names. startswith f (tn @ ''-'') \<and> isdigit b (split_dot_first (drop (length tn + 1) f)))"
  by (induction names) auto

lemma distinct_count_list: "distinct xs \<Longrightarrow> count_list xs x = (if x \<in> set xs then 1 else 0)"
  by (induction xs) auto

lemma inj_media_orphan_msg: "inj media_orphan_msg"
  by (simp add: inj_def media_orphan_msg_def)

lemma media_warning_count:
  "count_list (snd (snd (check_file_consistency m d))) (media_orphan_msg f) =
     (if f \<in> set (file_names d) \<and> f \<notin> set special_files \<and> \<not> endswith f ''.json''
         \<and> \<not> is_referenced (isdigit_beyond_ascii d)
               (map (\<lambda>w. replace w ''.json'' []) (referenced_workflows (process_categories d m collected_init))) f
      then 1 else 0)"
proof -
  let ?st = "process_categories d m collected_init"
  let ?all = "filter (\<lambda>f. f \<notin> set special_files) (remdups (file_names d))"
  let ?wf = "filter (\<lambda>f. endswith f ''.json'') ?all"
  let ?media = "filter (\<lambda>f. f \<notin> set ?wf) ?all"
  let ?names = "map (\<lambda>w. replace w ''.json'' []) (referenced_workflows ?st)"
  let ?po = "filter (\<lambda>media_file. \<not> is_referenced (isdigit_beyond_ascii d) ?names media_file) ?media"
  let ?ow = "filter (\<lambda>f. f \<notin> set (referenced_workflows ?st)) ?wf"
  have w: "snd (snd (check_file_consistency m d)) = map workflow_orphan_msg ?ow @ map media_orphan_msg ?po"
    by (simp only: check_file_consistency_def Let_def snd_conv)
  have "media_orphan_msg f \<notin> set (map workflow_orphan_msg ?ow)"
    by (auto simp: workflow_orphan_msg_def media_orphan_msg_def)
  then have z: "count_list (map workflow_orphan_msg ?ow) (media_orphan_msg f) = 0"
    by (rule count_notin)
  have c: "count_list (map media_orphan_msg ?po) (media_orphan_msg f) = count_list ?po f"
    by (rule count_list_map_conv[OF inj_media_orphan_msg])
  have dist: "distinct ?po" by simp
  have mem: "f \<in> set ?po \<longleftrightarrow>
      f \<in> set (file_names d) \<and> f \<notin> set special_files \<and> \<not> endswith f ''.json'' \<and> \<not> is_referenced (isdigit_beyond_ascii d) ?names f"
    by auto
  show ?thesis
    unfolding w count_list_append z c distinct_count_list[OF dist] mem by simp
qed

lemma workflow_warning_suffix:
  assumes "\<not> endswith f ''.json''"
  shows "workflow_orphan_msg f \<notin> set (snd (snd (check_file_consistency m d)))"
  using assms
  by (auto simp: check_file_consistency_def Let_def workflow_orphan_msg_def media_orphan_msg_def)

lemma count_list_map_filter:
  "count_list (map f xs) y = length (filter (\<lambda>x. f x = y) xs)"
  by (induction xs) auto

lemma missing_name_count:
  "count_list (fst (snd (check_file_consistency m d)))
     (''Template in category '' @ [CHR 0x27] @ ttl @ [CHR 0x27] @ '' missing name'') =
   length (filter (\<lambda>(c, t). get_name t = [] \<and> get_title c = ttl) (entries m))"
proof -
  let ?msg = "''Template in category '' @ [CHR 0x27] @ ttl @ [CHR 0x27] @ '' missing name''"
  let ?st = "process_categories d m collected_init"
  have e: "errors ?st = map (\<lambda>(c, t). missing_name_msg c) (filter (\<lambda>(c, t). get_name t = []) (entries m))"
    by (simp add: process_categories_fold collect_errors collected_init_def)
  have "?msg \<notin> set (map workflow_not_found_msg
            (filter (\<lambda>workflow. \<not> path_exists d workflow) (referenced_workflows ?st)))"
    by (auto simp: workflow_not_found_msg_def)
  then have b: "count_list (map workflow_not_found_msg
            (filter (\<lambda>workflow. \<not> path_exists d workflow) (referenced_workflows ?st))) ?msg = 0"
    by (rule count_notin)
  have a: "count_list (errors ?st) ?msg =
      length (filter (\<lambda>(c, t). get_name t = [] \<and> get_title c = ttl) (entries m))"
    unfolding e count_list_map_filter filter_filter
    by (rule arg_cong[where f = length], rule filter_cong) (auto simp: missing_name_msg_def)
  show ?thesis
    unfolding consistency_errors count_list_append a b by simp
qed

lemma templates_of_entries: "snd ` set (entries m) = set (concat (map get_templates m))"
  using snd_entries[of m] by (metis set_map)

subsection \<open>From a workflow file name back to the template name\<close>

lemma json_overlap:
  "''.json'' = xs @ us \<Longrightarrow> prefix us ''.json'' \<Longrightarrow> us = [] \<or> xs = []"
  by (auto simp: Cons_eq_append_conv)

lemma replace_step:
  "old \<noteq> [] \<Longrightarrow> \<not> prefix old (c # cs) \<Longrightarrow> replace (c # cs) old new = c # replace cs old new"
  by simp

lemma replace_no_occurrence:
  "\<not> contains s ''.json'' \<Longrightarrow> replace (s @ ''.json'') ''.json'' [] = s"
proof (induction s)
  case Nil
  then show ?case by simp
next
  case (Cons c cs)
  have no: "\<not> prefix ''.json'' (c # cs)" and rest: "\<not> contains cs ''.json''"
    using Cons.prems by (simp_all add: contains_def)
  have "\<not> prefix ''.json'' ((c # cs) @ ''.json'')"
  proof
    assume "prefix ''.json'' ((c # cs) @ ''.json'')"
    then obtain us where us: "''.json'' = (c # cs) @ us" "prefix us ''.json''"
      using no unfolding prefix_append by blast
    then have "us = []" using json_overlap[OF us] by simp
    then have "c # cs = ''.json''" using us(1) by simp
    then show False using no by simp
  qed
  then have "\<not> prefix ''.json'' (c # (cs @ ''.json''))"
    by simp
  then have "replace (c # (cs @ ''.json'')) ''.json'' [] = c # replace (cs @ ''.json'') ''.json'' []"
    by (rule replace_step[rotated]) simp
  then show ?case by (simp only: append_Cons Cons.IH[OF rest])
qed

lemma template_names_set:
  assumes "\<forall>t \<in> set (concat (map get_templates m)). \<not> contains (get_name t) ''.json''"
  shows "set (map (\<lambda>w. replace w ''.json'' []) (referenced_workflows (process_categories d m collected_init)))
       = {get_name t | t. t \<in> set (concat (map get_templates m)) \<and> get_name t \<noteq> []}"
proof -
  have ts: "snd ` set (entries m) = set (concat (map get_templates m))"
    using snd_entries[of m] by (metis set_map)
  have "set (referenced_workflows (process_categories d m collected_init)) =
      {get_name t @ ''.json'' | t. t \<in> set (concat (map get_templates m)) \<and> get_name t \<noteq> []}"
    by (simp add: process_categories_fold collect_workflows collected_init_def ts)
  then have "set (map (\<lambda>w. replace w ''.json'' []) (referenced_workflows (process_categories d m collected_init)))
      = (\<lambda>w. replace w ''.json'' []) ` {get_name t @ ''.json'' | t. t \<in> set (concat (map get_templates m)) \<and> get_name t \<noteq> []}"
    by simp
  also have "\<dots> = {get_name t | t. t \<in> set (concat (map get_templates m)) \<and> get_name t \<noteq> []}"
    using assms by (force simp: replace_no_occurrence image_iff)
  finally show ?thesis .
qed

lemma tenth_is_referenced:
  assumes t: "t \<in> set (concat (map get_templates m))" and nm: "get_name t \<noteq> []"
      and nj: "\<not> contains (get_name t) ''.json''"
  shows "is_referenced (isdigit_beyond_ascii d)
          (map (\<lambda>w. replace w ''.json'' []) (referenced_workflows (process_categories d m collected_init)))
          (thumbnail_file (get_name t) 10 s)"
proof -
  have ts: "snd ` set (entries m) = set (concat (map get_templates m))"
    using snd_entries[of m] by (metis set_map)
  have "get_name t @ ''.json'' \<in> set (referenced_workflows (process_categories d m collected_init))"
    using t nm by (auto simp: process_categories_fold collect_workflows collected_init_def ts)
  then have "replace (get_name t @ ''.json'') ''.json'' [] \<in>
      set (map (\<lambda>w. replace w ''.json'' []) (referenced_workflows (process_categories d m collected_init)))"
    by (simp only: set_map) (rule imageI)
  then have mem: "get_name t \<in>
      set (map (\<lambda>w. replace w ''.json'' []) (referenced_workflows (process_categories d m collected_init)))"
    by (simp only: replace_no_occurrence[OF nj])
  have pat: "startswith (thumbnail_file (get_name t) 10 s) (get_name t @ ''-'')
      \<and> isdigit (isdigit_beyond_ascii d)
            (split_dot_first (drop (length (get_name t) + 1) (thumbnail_file (get_name t) 10 s)))"
    by (simp add: thumbnail_file_def str_nat_10 startswith_def isdigit_def split_dot_first_def
          is_digit_char_def is_ascii_char_def)
  show ?thesis unfolding is_referenced_iff using mem pat by blast
qed

subsection \<open>The loop of \<^verbatim>\<open>check_duplicate_names\<close>\<close>

lemma duplicate_templates_fold:
  "duplicate_templates ct ts st = fold (\<lambda>t. duplicate_step ct t) ts st"
  by (induction ts arbitrary: st) simp_all

lemma duplicate_categories_fold:
  "duplicate_categories m st = fold (\<lambda>(c, t). duplicate_step (get_title_unknown c) t) (entries m) st"
  by (induction m arbitrary: st)
     (simp_all add: entries_Nil entries_Cons duplicate_templates_fold fold_map comp_def)

lemma first_seen_Cons:
  "first_seen ((c, t) # es) = (first_seen es)(get_name t \<mapsto> get_title_unknown c)"
  by (simp add: first_seen_def)

lemma first_seen_dom: "dom (first_seen es) = (\<lambda>(c, t). get_name t) ` set es"
  by (force simp: first_seen_def dom_map_of_conv_image_fst image_image case_prod_beta)

lemma first_seen_append_fresh:
  "n \<notin> (\<lambda>(c, t). get_name t) ` set xs \<Longrightarrow> first_seen (xs @ ys) n = first_seen ys n"
proof -
  assume "n \<notin> (\<lambda>(c, t). get_name t) ` set xs"
  then have "n \<notin> dom (first_seen xs)" by (simp add: first_seen_dom)
  then show ?thesis
    unfolding first_seen_def map_append map_of_append by (simp add: map_add_dom_app_simps)
qed

lemma dup_seen:
  "snd (fold (\<lambda>(c, t). duplicate_step (get_title_unknown c) t) es st) = first_seen es ++ snd st"
proof (induction es arbitrary: st)
  case Nil
  then show ?case by (simp add: first_seen_def)
next
  case (Cons e es)
  obtain c t where e: "e = (c, t)" by (cases e)
  let ?st' = "duplicate_step (get_title_unknown c) t st"
  have "snd (fold (\<lambda>(c, t). duplicate_step (get_title_unknown c) t) (e # es) st) = first_seen es ++ snd ?st'"
    using Cons.IH[of ?st'] by (simp add: e)
  also have "\<dots> = first_seen (e # es) ++ snd st"
  proof (cases "snd st (get_name t)")
    case None
    then have "snd ?st' = (snd st)(get_name t \<mapsto> get_title_unknown c)"
      by (simp add: duplicate_step_def Let_def)
    then show ?thesis using None
      by (auto simp: e first_seen_Cons map_add_def fun_eq_iff split: option.splits)
  next
    case (Some ft)
    then have "snd ?st' = snd st"
      by (simp add: duplicate_step_def Let_def)
    then show ?thesis using Some
      by (auto simp: e first_seen_Cons map_add_def fun_eq_iff split: option.splits)
  qed
  finally show ?case .
qed

lemma repeats_Nil: "repeats [] = []"
  by (simp add: repeats_def)

lemma repeats_snoc:
  "repeats (es @ [(c, t)]) =
     repeats es @ (if get_name t \<in> (\<lambda>(c, t). get_name t) ` set es then [(c, t)] else [])"
proof -
  let ?P = "\<lambda>(i, c', t'). get_name t' \<in> set (map (\<lambda>(c, t). get_name t) (take i (es @ [(c, t)])))"
  let ?Q = "\<lambda>(i, c', t'). get_name t' \<in> set (map (\<lambda>(c, t). get_name t) (take i es))"
  have split: "enumerate 0 (es @ [(c, t)]) = enumerate 0 es @ [(length es, c, t)]"
    by (simp add: enumerate_append_eq)
  have eq: "filter ?P (enumerate 0 es) = filter ?Q (enumerate 0 es)"
    by (rule filter_cong) (auto simp: in_set_enumerate_eq)
  have last: "map snd (filter ?P [(length es, c, t)]) =
      (if get_name t \<in> (\<lambda>(c, t). get_name t) ` set es then [(c, t)] else [])"
    by simp
  have "repeats (es @ [(c, t)]) = map snd (filter ?P (enumerate 0 es)) @ map snd (filter ?P [(length es, c, t)])"
    unfolding repeats_def split by (simp only: filter_append map_append)
  also have "\<dots> = repeats es @ (if get_name t \<in> (\<lambda>(c, t). get_name t) ` set es then [(c, t)] else [])"
    unfolding eq last repeats_def ..
  finally show ?thesis .
qed

lemma repeats_subset: "x \<in> set (repeats es) \<Longrightarrow> x \<in> set es"
  unfolding repeats_def by (auto simp: in_set_enumerate_eq) (metis nth_mem)

lemma repeats_distinct:
  "distinct (map (\<lambda>(c, t). get_name t) es) \<Longrightarrow> repeats es = []"
proof (induction es rule: rev_induct)
  case Nil
  then show ?case by (simp add: repeats_Nil)
next
  case (snoc e es)
  obtain c t where e: "e = (c, t)" by (cases e)
  from snoc.prems have "get_name t \<notin> (\<lambda>(c, t). get_name t) ` set es" and "distinct (map (\<lambda>(c, t). get_name t) es)"
    by (auto simp: e)
  then show ?case using snoc.IH by (simp add: e repeats_snoc)
qed

lemma repeats_append_fresh:
  "distinct (map (\<lambda>(c, t). get_name t) zs) \<Longrightarrow>
   (\<lambda>(c, t). get_name t) ` set zs \<inter> (\<lambda>(c, t). get_name t) ` set es = {} \<Longrightarrow>
   repeats (es @ zs) = repeats es"
proof (induction zs rule: rev_induct)
  case Nil
  then show ?case by simp
next
  case (snoc z zs)
  obtain c t where z: "z = (c, t)" by (cases z)
  from snoc.prems have fresh: "get_name t \<notin> (\<lambda>(c, t). get_name t) ` set (es @ zs)"
    by (auto simp: z)
  from snoc.prems have "repeats (es @ zs) = repeats es"
    by (intro snoc.IH) auto
  moreover have "repeats ((es @ zs) @ [(c, t)]) = repeats (es @ zs)"
    using fresh by (simp only: repeats_snoc if_False append_Nil2)
  ultimately show ?case by (simp add: z)
qed

lemma repeats_filter_name:
  "filter (\<lambda>(c, t). get_name t = n) (repeats es) = tl (filter (\<lambda>(c, t). get_name t = n) es)"
proof (induction es rule: rev_induct)
  case Nil
  then show ?case by (simp add: repeats_Nil)
next
  case (snoc e es)
  obtain c t where e: "e = (c, t)" by (cases e)
  have mem: "n \<in> (\<lambda>(c, t). get_name t) ` set es \<longleftrightarrow> filter (\<lambda>(c, t). get_name t = n) es \<noteq> []"
    by (auto simp: filter_empty_conv)
  show ?case
  proof (cases "get_name t = n")
    case True
    then show ?thesis using snoc.IH mem by (auto simp: e repeats_snoc)
  next
    case False
    then show ?thesis using snoc.IH by (auto simp: e repeats_snoc)
  qed
qed

lemma dup_errors:
  "fst (fold (\<lambda>(c, t). duplicate_step (get_title_unknown c) t) es ([], Map.empty)) =
     map (\<lambda>(c, t). duplicate_msg (get_name t) (the (first_seen es (get_name t))) (get_title_unknown c))
       (repeats es)"
proof (induction es rule: rev_induct)
  case Nil
  then show ?case by (simp add: repeats_Nil)
next
  case (snoc e es)
  obtain c t where e: "e = (c, t)" by (cases e)
  let ?st = "fold (\<lambda>(c, t). duplicate_step (get_title_unknown c) t) es ([], Map.empty)"
  have seen: "snd ?st = first_seen es" using dup_seen[of es "([], Map.empty)"] by simp
  have keep: "\<And>n. n \<in> (\<lambda>(c, t). get_name t) ` set es \<Longrightarrow> first_seen (es @ [e]) n = first_seen es n"
  proof -
    fix n assume "n \<in> (\<lambda>(c, t). get_name t) ` set es"
    then have "n \<in> dom (first_seen es)" by (simp add: first_seen_dom)
    then show "first_seen (es @ [e]) n = first_seen es n"
      unfolding first_seen_def map_append map_of_append by (simp add: map_add_dom_app_simps)
  qed
  have old: "map (\<lambda>(c, t). duplicate_msg (get_name t) (the (first_seen (es @ [e]) (get_name t))) (get_title_unknown c)) (repeats es)
           = map (\<lambda>(c, t). duplicate_msg (get_name t) (the (first_seen es (get_name t))) (get_title_unknown c)) (repeats es)"
  proof (rule map_cong[OF refl])
    fix x assume "x \<in> set (repeats es)"
    then have "x \<in> set es" by (rule repeats_subset)
    then have "(\<lambda>(c, t). get_name t) x \<in> (\<lambda>(c, t). get_name t) ` set es" by blast
    then show "(case x of (c, t) \<Rightarrow> duplicate_msg (get_name t) (the (first_seen (es @ [e]) (get_name t))) (get_title_unknown c))
             = (case x of (c, t) \<Rightarrow> duplicate_msg (get_name t) (the (first_seen es (get_name t))) (get_title_unknown c))"
      using keep by (cases x) auto
  qed
  show ?case
  proof (cases "get_name t \<in> (\<lambda>(c, t). get_name t) ` set es")
    case True
    then obtain ft where ft: "first_seen es (get_name t) = Some ft"
      using first_seen_dom[of es] by blast
    have "fst (duplicate_step (get_title_unknown c) t ?st) = fst ?st @ [duplicate_msg (get_name t) ft (get_title_unknown c)]"
      using ft seen by (simp add: duplicate_step_def Let_def)
    then show ?thesis using snoc.IH True ft keep[OF True] old
      by (simp add: e repeats_snoc)
  next
    case False
    then have "first_seen es (get_name t) = None"
      using first_seen_dom[of es] by blast
    then have "fst (duplicate_step (get_title_unknown c) t ?st) = fst ?st"
      using seen by (simp add: duplicate_step_def Let_def)
    then show ?thesis using snoc.IH False old
      by (simp add: e repeats_snoc)
  qed
qed

lemma check_duplicate_names_repeats:
  "snd (check_duplicate_names m) =
     map (\<lambda>(c, t). duplicate_msg (get_name t) (the (first_seen (entries m) (get_name t))) (get_title_unknown c))
       (repeats (entries m))"
  by (simp add: check_duplicate_names_def Let_def duplicate_categories_fold dup_errors)

lemma distinct_split:
  "distinct (nx @ n # ny @ nz) \<Longrightarrow>
   distinct (nx @ n # ny) \<and> distinct nz \<and> set nz \<inter> set ((nx @ n # ny) @ [n]) = {} \<and> n \<notin> set nx"
  by auto

lemma two_share:
  assumes es: "es = xs @ (a, t1) # ys @ (b, t2) # zs"
      and same: "get_name t1 = get_name t2"
      and dist: "distinct (map (\<lambda>(c, t). get_name t) (xs @ (a, t1) # ys @ zs))"
  shows "repeats es = [(b, t2)]" and "first_seen es (get_name t2) = Some (get_title_unknown a)"
proof -
  let ?N = "\<lambda>(c, t). get_name t"
  have "distinct (map ?N xs @ get_name t2 # map ?N ys @ map ?N zs)"
    using dist same by simp
  note parts = distinct_split[OF this]
  have d1: "distinct (map ?N (xs @ (a, t1) # ys))" using parts same by simp
  have d2: "distinct (map ?N zs)" using parts by simp
  have "set (map ?N zs) \<inter> set (map ?N ((xs @ (a, t1) # ys) @ [(b, t2)])) = {}"
    using parts same by simp
  then have fresh: "?N ` set zs \<inter> ?N ` set ((xs @ (a, t1) # ys) @ [(b, t2)]) = {}"
    by (simp only: set_map)
  have nx: "get_name t2 \<notin> ?N ` set xs" using parts by simp
  have "repeats es = repeats (((xs @ (a, t1) # ys) @ [(b, t2)]) @ zs)" by (simp add: es)
  also have "\<dots> = repeats ((xs @ (a, t1) # ys) @ [(b, t2)])"
    by (rule repeats_append_fresh[OF d2 fresh])
  also have "\<dots> = repeats (xs @ (a, t1) # ys) @ [(b, t2)]"
    unfolding repeats_snoc using same by simp
  also have "\<dots> = [(b, t2)]" by (simp add: repeats_distinct[OF d1])
  finally show "repeats es = [(b, t2)]" .
  have "first_seen es (get_name t2) = first_seen ((a, t1) # ys @ (b, t2) # zs) (get_name t2)"
    unfolding es using nx by (rule first_seen_append_fresh)
  then show "first_seen es (get_name t2) = Some (get_title_unknown a)"
    by (simp add: first_seen_Cons same)
qed

subsection \<open>The loop of \<^verbatim>\<open>check_required_thumbnails\<close>\<close>

lemma required_templates_fold:
  "required_templates d ts errs = fold (required_step d) ts errs"
  by (induction ts arbitrary: errs) simp_all

lemma required_categories_fold:
  "required_categories d m errs = fold (required_step d) (concat (map get_templates m)) errs"
  by (induction m arbitrary: errs) (simp_all add: required_templates_fold)

lemma required_step_eq:
  "required_step d t errs =
     errs @ (if lacks_thumbnail d t then [missing_thumbnail_msg (get_name t) (get_mediaSubtype t)] else [])"
  by (simp add: required_step_def lacks_thumbnail_def Let_def)

lemma required_fold:
  "fold (required_step d) ts errs =
     errs @ map (\<lambda>t. missing_thumbnail_msg (get_name t) (get_mediaSubtype t)) (filter (lacks_thumbnail d) ts)"
  by (induction ts arbitrary: errs) (simp_all add: required_step_eq)

lemma required_errors_existing:
  assumes "path_exists d f"
  shows "''Missing required thumbnail: '' @ f \<notin> set (snd (check_required_thumbnails m d))"
proof -
  have "snd (check_required_thumbnails m d) =
     map (\<lambda>t. missing_thumbnail_msg (get_name t) (get_mediaSubtype t))
       (filter (lacks_thumbnail d) (concat (map get_templates m)))"
    by (simp add: check_required_thumbnails_def Let_def required_categories_fold required_fold)
  then show ?thesis using assms
    by (auto simp: missing_thumbnail_msg_def lacks_thumbnail_def)
qed

subsection \<open>The driver\<close>

lemma validate_schema_valid: "fst (validate_schema m sf) = (snd (validate_schema m sf) = [])"
  by (simp add: validate_schema_def split: sum.splits validation.splits)

lemma check_duplicate_names_valid:
  "fst (check_duplicate_names m) = (snd (check_duplicate_names m) = [])"
  by (simp add: check_duplicate_names_def Let_def)

lemma check_required_thumbnails_valid:
  "fst (check_required_thumbnails m d) = (snd (check_required_thumbnails m d) = [])"
  by (simp add: check_required_thumbnails_def Let_def)

lemma main_loaded:
  assumes "path_exists (templates_dir w) ''index.json''"
      and "path_exists (templates_dir w) ''index.schema.json''"
      and "index_json w = Inr index_data"
  shows "snd (main w) = (if all_errors w index_data = [] then 0 else 1)"
  using assms
  by (simp add: main_def Let_def all_errors_def validate_schema_valid
        check_duplicate_names_valid check_required_thumbnails_valid)

lemma main_stages:
  assumes "path_exists (templates_dir w) ''index.json''"
      and "path_exists (templates_dir w) ''index.schema.json''"
      and "index_json w = Inr index_data"
  shows "prefix [Banner, TemplatesDirectory, StageTitle 1,
                 if fst (validate_schema index_data (index_schema_json w)) then StagePassed 1 else StageFailed 1,
                 StageTitle 2] (fst (main w))"
    and "StageTitle 3 \<in> set (fst (main w))"
    and "StageTitle 4 \<in> set (fst (main w))"
  using assms by (simp_all add: main_def Let_def)

lemma main_error_lines:
  assumes "path_exists (templates_dir w) ''index.json''"
      and "path_exists (templates_dir w) ''index.schema.json''"
      and "index_json w = Inr index_data"
      and "e \<in> set (all_errors w index_data)"
  shows "ErrorLine e \<in> set (fst (main w))"
proof -
  have ne: "all_errors w index_data \<noteq> []" using assms(4) by auto
  have "ErrorLine e \<in> set (concat (map (\<lambda>error. ErrorLine error #
            (if is_github_actions w then [ErrorAnnotation error] else [])) (all_errors w index_data)))"
    using assms(4) by auto
  then show ?thesis
    using assms(1-3) ne
    by (auto simp: main_def Let_def all_errors_def validate_schema_valid
        check_duplicate_names_valid check_required_thumbnails_valid)
qed

section \<open>Running the checks on the small catalogue\<close>

lemmas ex_eval = ex_manifest_def ex_category_A_def ex_category_bare_def ex_category_B_def
  ex_directory_def collected_init_def process_template_def
  get_templates_def get_name_def get_mediaSubtype_def get_title_def get_title_unknown_def
  Let_def set_add_def thumbnail_file_def
  upt_rec str_nat.simps digit_char_def

lemmas check_eval = check_file_consistency_def check_duplicate_names_def check_required_thumbnails_def
  special_files_def endswith_def startswith_def suffix_to_prefix isdigit_def is_digit_char_def is_ascii_char_def
  split_dot_first_def duplicate_step_def required_step_def validate_schema_def
  missing_name_msg_def workflow_not_found_msg_def thumbnail_not_found_msg_def
  workflow_orphan_msg_def media_orphan_msg_def duplicate_msg_def missing_thumbnail_msg_def

lemma ex_index:
  "path_exists ex_directory ''index.json''" "path_exists ex_directory ''index.schema.json''"
  by (simp_all add: ex_directory_def)

lemma ex_entries:
  "entries ex_manifest =
     [(ex_category_A, \<lparr>name = Some ''flux_basic'', mediaSubtype = Some ''webp''\<rparr>),
      (ex_category_A, \<lparr>name = None, mediaSubtype = Some ''webp''\<rparr>),
      (ex_category_A, \<lparr>name = Some ''sdxl'', mediaSubtype = Some ''webp''\<rparr>),
      (ex_category_B, \<lparr>name = Some ''flux_basic'', mediaSubtype = None\<rparr>),
      (ex_category_B, \<lparr>name = Some [], mediaSubtype = None\<rparr>)]"
  by (simp add: entries_def ex_manifest_def get_templates_def)
     (simp add: ex_category_A_def ex_category_B_def ex_category_bare_def)

lemma ex_ok_consistency:
  "check_file_consistency [ex_category_ok] ex_directory =
     (True, [], [''Media file not referenced in index.json: orphan.png''])"
  by (simp add: ex_eval check_eval ex_category_ok_def)

lemma ex_ok_duplicates: "check_duplicate_names [ex_category_ok] = (True, [])"
  by (simp add: ex_eval check_eval ex_category_ok_def)

lemma ex_ok_required: "check_required_thumbnails [ex_category_ok] ex_directory = (True, [])"
  by (simp add: ex_eval check_eval ex_category_ok_def)

lemma ex_consistency:
  "check_file_consistency ex_manifest ex_directory =
     (False,
      [''Template in category 'A' missing name'', ''Template in category 'B' missing name'',
       ''Referenced workflow file not found: sdxl.json''],
      [''Media file not referenced in index.json: orphan.png''])"
  by (simp add: ex_eval check_eval)

lemma ex_duplicates:
  "check_duplicate_names ex_manifest =
     (False,
      [''Duplicate template name 'flux_basic' found in categories 'A' and 'B'' @ [CHR 0x27],
       ''Duplicate template name '' @ [CHR 0x27, CHR 0x27] @ '' found in categories 'A' and 'B'' @ [CHR 0x27]])"
  by (simp add: ex_eval check_eval)

lemma ex_required:
  "check_required_thumbnails ex_manifest ex_directory = (False, [''Missing required thumbnail: sdxl-1.webp''])"
  by (simp add: ex_eval check_eval)

section \<open>The claims\<close>

text \<open>
  C1, as the code has it. The orphan test for media files does not use the
  referenced-thumbnails set; it matches file names against the referenced template names,
  whatever the extension. For a manifest none of whose template names contains
  \<^verbatim>\<open>.json\<close>: a file is reported as an unreferenced media file, exactly once, when it is
  listed in the directory, is not a special file, does not end in \<^verbatim>\<open>.json\<close>, and there
  is no template with a non-empty name such that the file starts with \<^verbatim>\<open><name>-\<close> and
  the rest up to the first dot is all-digit as \<^verbatim>\<open>str.isdigit\<close> has it (not empty, and
  every character a digit, of ASCII or of another script); otherwise it is not
  reported. So \<^verbatim>\<open>flux_basic-1.png\<close> is not reported when \<^verbatim>\<open>flux_basic\<close> is a template,
  even though its mediaSubtype is \<^verbatim>\<open>webp\<close>.
\<close>

theorem C1_media_orphans:
  assumes "\<forall>t \<in> set (concat (map get_templates index_data)). \<not> contains (get_name t) ''.json''"
  shows "count_list (snd (snd (check_file_consistency index_data d)))
           (''Media file not referenced in index.json: '' @ f) =
         (if f \<in> set (file_names d) \<and> f \<notin> set special_files \<and> \<not> endswith f ''.json''
             \<and> \<not> (\<exists>t \<in> set (concat (map get_templates index_data)).
                     get_name t \<noteq> [] \<and> startswith f (get_name t @ ''-'')
                     \<and> isdigit (isdigit_beyond_ascii d)
                           (split_dot_first (drop (length (get_name t) + 1) f)))
          then 1 else 0)"
proof -
  have "is_referenced (isdigit_beyond_ascii d)
          (map (\<lambda>w. replace w ''.json'' []) (referenced_workflows (process_categories d index_data collected_init))) f
      \<longleftrightarrow> (\<exists>t \<in> set (concat (map get_templates index_data)).
                     get_name t \<noteq> [] \<and> startswith f (get_name t @ ''-'')
                     \<and> isdigit (isdigit_beyond_ascii d)
                           (split_dot_first (drop (length (get_name t) + 1) f)))"
    unfolding is_referenced_iff template_names_set[OF assms] by blast
  then show ?thesis
    using media_warning_count[of index_data d f] by (simp add: media_orphan_msg_def)
qed

theorem C1_media_orphans_witness:
  "count_list (snd (snd (check_file_consistency [ex_category_ok] ex_directory)))
      ''Media file not referenced in index.json: orphan.png'' = 1
   \<and> count_list (snd (snd (check_file_consistency [ex_category_ok] ex_directory)))
      ''Media file not referenced in index.json: flux_basic-1.webp'' = 0
   \<and> count_list (snd (snd (check_file_consistency [ex_category_ok] ex_directory_png)))
      ''Media file not referenced in index.json: flux_basic-1.png'' = 0
   \<and> ''flux_basic-'' @ [CHR 0xB2] @ ''.png'' \<in> set (file_names ex_directory_superscript)
   \<and> isdigit (isdigit_beyond_ascii ex_directory_superscript) [CHR 0xB2]
   \<and> count_list (snd (snd (check_file_consistency [ex_category_ok] ex_directory_superscript)))
      (''Media file not referenced in index.json: '' @ ''flux_basic-'' @ [CHR 0xB2] @ ''.png'') = 0"
proof -
  have ts: "concat (map get_templates [ex_category_ok]) =
      [\<lparr>name = Some ''flux_basic'', mediaSubtype = Some ''webp''\<rparr>]"
    by (simp add: get_templates_def ex_category_ok_def)
  have h: "\<forall>t \<in> set (concat (map get_templates [ex_category_ok])). \<not> contains (get_name t) ''.json''"
    unfolding ts by (simp add: contains_def get_name_def)
  show ?thesis
    using C1_media_orphans[OF h, of ex_directory "''orphan.png''"]
          C1_media_orphans[OF h, of ex_directory "''flux_basic-1.webp''"]
          C1_media_orphans[OF h, of ex_directory_png "''flux_basic-1.png''"]
          C1_media_orphans[OF h, of ex_directory_superscript "''flux_basic-'' @ [CHR 0xB2] @ ''.png''"]
    unfolding ts
    by (simp add: ex_directory_def ex_directory_png_def ex_directory_superscript_def special_files_def
          endswith_def startswith_def suffix_to_prefix isdigit_def is_digit_char_def is_ascii_char_def
          split_dot_first_def get_name_def)
qed

text \<open>
  C1 as stated fails on its own example: with \<^verbatim>\<open>flux_basic\<close> declared as \<^verbatim>\<open>webp\<close> and
  \<^verbatim>\<open>flux_basic-1.png\<close> on disk, the check returns no warning at all.
\<close>

theorem C1_media_orphans_counterexample:
  "get_templates ex_category_ok = [\<lparr>name = Some ''flux_basic'', mediaSubtype = Some ''webp''\<rparr>]
   \<and> ''flux_basic-1.png'' \<in> set (file_names ex_directory_png)
   \<and> check_file_consistency [ex_category_ok] ex_directory_png = (True, [], [])"
  by (simp add: ex_directory_png_def ex_category_ok_def check_eval collected_init_def
        process_template_def get_templates_def get_name_def get_mediaSubtype_def Let_def
        set_add_def thumbnail_file_def upt_rec str_nat.simps digit_char_def)

text \<open>
  C2, as the code has it. When \<^verbatim>\<open>index.json\<close> is missing, when \<^verbatim>\<open>index.schema.json\<close>
  is missing, or when \<^verbatim>\<open>index.json\<close> cannot be loaded, \<^verbatim>\<open>main\<close> prints, after its two
  banner lines, one message that says which of the three happened, returns 1, and prints no
  line of any check. A schema file that exists and cannot be loaded is not such a case:
  \<^verbatim>\<open>validate_schema\<close> catches the exception and reports it as the error
  \<^verbatim>\<open>Unexpected error during validation: ...\<close>, the stages 1 to 4 all print, and the run
  returns 1 with that error among the error lines of the summary.
\<close>

theorem C2_fatal_inputs:
  "(\<not> path_exists (templates_dir w) ''index.json'' \<longrightarrow>
      main w = ([Banner, TemplatesDirectory, IndexNotFound], 1))
   \<and> (path_exists (templates_dir w) ''index.json'' \<and> \<not> path_exists (templates_dir w) ''index.schema.json'' \<longrightarrow>
      main w = ([Banner, TemplatesDirectory, SchemaNotFound], 1))
   \<and> (path_exists (templates_dir w) ''index.json'' \<and> path_exists (templates_dir w) ''index.schema.json''
        \<and> index_json w = Inl e \<longrightarrow>
      main w = ([Banner, TemplatesDirectory, IndexLoadError e], 1))
   \<and> (path_exists (templates_dir w) ''index.json'' \<and> path_exists (templates_dir w) ''index.schema.json''
        \<and> index_json w = Inr index_data \<and> index_schema_json w = Inl e' \<longrightarrow>
      snd (main w) = 1
      \<and> validate_schema index_data (index_schema_json w) =
           (False, [''Unexpected error during validation: '' @ e'])
      \<and> prefix [Banner, TemplatesDirectory, StageTitle 1, StageFailed 1, StageTitle 2] (fst (main w))
      \<and> StageTitle 3 \<in> set (fst (main w))
      \<and> StageTitle 4 \<in> set (fst (main w))
      \<and> ErrorLine (''Unexpected error during validation: '' @ e') \<in> set (fst (main w)))"
proof -
  have 1: "\<not> path_exists (templates_dir w) ''index.json'' \<Longrightarrow>
      main w = ([Banner, TemplatesDirectory, IndexNotFound], 1)"
    by (simp add: main_def)
  have 2: "path_exists (templates_dir w) ''index.json'' \<Longrightarrow> \<not> path_exists (templates_dir w) ''index.schema.json'' \<Longrightarrow>
      main w = ([Banner, TemplatesDirectory, SchemaNotFound], 1)"
    by (simp add: main_def)
  have 3: "path_exists (templates_dir w) ''index.json'' \<Longrightarrow> path_exists (templates_dir w) ''index.schema.json''
        \<Longrightarrow> index_json w = Inl e \<Longrightarrow>
      main w = ([Banner, TemplatesDirectory, IndexLoadError e], 1)"
    by (simp add: main_def)
  have 4: "snd (main w) = 1
      \<and> validate_schema index_data (index_schema_json w) =
           (False, [''Unexpected error during validation: '' @ e'])
      \<and> prefix [Banner, TemplatesDirectory, StageTitle 1, StageFailed 1, StageTitle 2] (fst (main w))
      \<and> StageTitle 3 \<in> set (fst (main w))
      \<and> StageTitle 4 \<in> set (fst (main w))
      \<and> ErrorLine (''Unexpected error during validation: '' @ e') \<in> set (fst (main w))"
    if ex: "path_exists (templates_dir w) ''index.json''" "path_exists (templates_dir w) ''index.schema.json''"
      "index_json w = Inr index_data" and bad: "index_schema_json w = Inl e'"
  proof -
    have v: "validate_schema index_data (index_schema_json w) =
           (False, [''Unexpected error during validation: '' @ e'])"
      by (simp add: validate_schema_def bad)
    then have mem: "''Unexpected error during validation: '' @ e' \<in> set (all_errors w index_data)"
      by (simp add: all_errors_def)
    then have "all_errors w index_data \<noteq> []" by auto
    then have code: "snd (main w) = 1" using main_loaded[OF ex] by simp
    show ?thesis
      using code v main_stages[OF ex] main_error_lines[OF ex mem] by simp
  qed
  from 1 2 3 4 show ?thesis by blast
qed

theorem C2_fatal_inputs_witness:
  "main ex_world_no_index = ([Banner, TemplatesDirectory, IndexNotFound], 1)
   \<and> main ex_world_no_schema = ([Banner, TemplatesDirectory, SchemaNotFound], 1)
   \<and> main ex_world_bad_index =
       ([Banner, TemplatesDirectory, IndexLoadError ''Expecting value: line 1 column 1 (char 0)''], 1)
   \<and> snd (main ex_world_bad_schema) = 1
   \<and> StageTitle 4 \<in> set (fst (main ex_world_bad_schema))
   \<and> ErrorLine ''Unexpected error during validation: Expecting value: line 1 column 1 (char 0)''
       \<in> set (fst (main ex_world_bad_schema))"
proof -
  have a: "\<not> path_exists (templates_dir ex_world_no_index) ''index.json''"
    by (simp add: ex_world_no_index_def)
  have b: "path_exists (templates_dir ex_world_no_schema) ''index.json''
      \<and> \<not> path_exists (templates_dir ex_world_no_schema) ''index.schema.json''"
    by (simp add: ex_world_no_schema_def)
  have c: "path_exists (templates_dir ex_world_bad_index) ''index.json''
      \<and> path_exists (templates_dir ex_world_bad_index) ''index.schema.json''
      \<and> index_json ex_world_bad_index = Inl ''Expecting value: line 1 column 1 (char 0)''"
    by (simp add: ex_world_bad_index_def ex_directory_def)
  have d: "path_exists (templates_dir ex_world_bad_schema) ''index.json''
      \<and> path_exists (templates_dir ex_world_bad_schema) ''index.schema.json''
      \<and> index_json ex_world_bad_schema = Inr [ex_category_ok]
      \<and> index_schema_json ex_world_bad_schema = Inl ''Expecting value: line 1 column 1 (char 0)''"
    by (simp add: ex_world_bad_schema_def ex_directory_def)
  show ?thesis
    using a b c d
      C2_fatal_inputs[of ex_world_no_index "[]" "[]" "[]"]
      C2_fatal_inputs[of ex_world_no_schema "[]" "[]" "[]"]
      C2_fatal_inputs[of ex_world_bad_index "''Expecting value: line 1 column 1 (char 0)''" "[]" "[]"]
      C2_fatal_inputs[of ex_world_bad_schema "[]" "[ex_category_ok]"
         "''Expecting value: line 1 column 1 (char 0)''"]
    by simp
qed

text \<open>
  C2 as stated fails for the schema file: with a schema that does not parse, the run does not
  stop after one message; all four stages print and the warnings and the summary follow.
\<close>

theorem C2_fatal_inputs_counterexample:
  "path_exists (templates_dir ex_world_bad_schema) ''index.json''
   \<and> path_exists (templates_dir ex_world_bad_schema) ''index.schema.json''
   \<and> index_json ex_world_bad_schema = Inr [ex_category_ok]
   \<and> index_schema_json ex_world_bad_schema = Inl ''Expecting value: line 1 column 1 (char 0)''
   \<and> main ex_world_bad_schema =
       ([Banner, TemplatesDirectory,
         StageTitle 1, StageFailed 1,
         StageTitle 2, StagePassedWithWarnings 2,
         StageTitle 3, StagePassed 3,
         StageTitle 4, StagePassed 4,
         WarningsTitle, WarningLine ''Media file not referenced in index.json: orphan.png'',
         SummaryRule, ValidationFailed 1,
         ErrorLine ''Unexpected error during validation: Expecting value: line 1 column 1 (char 0)''],
        1)"
proof -
  have "main ex_world_bad_schema =
       ([Banner, TemplatesDirectory,
         StageTitle 1, StageFailed 1,
         StageTitle 2, StagePassedWithWarnings 2,
         StageTitle 3, StagePassed 3,
         StageTitle 4, StagePassed 4,
         WarningsTitle, WarningLine ''Media file not referenced in index.json: orphan.png'',
         SummaryRule, ValidationFailed 1,
         ErrorLine ''Unexpected error during validation: Expecting value: line 1 column 1 (char 0)''],
        1)"
    by (simp add: main_def ex_world_bad_schema_def Let_def ex_index ex_ok_consistency
          ex_ok_duplicates ex_ok_required validate_schema_def)
  then show ?thesis by (simp add: ex_world_bad_schema_def ex_index)
qed

text \<open>
  C3. When \<^verbatim>\<open>index.json\<close> and \<^verbatim>\<open>index.schema.json\<close> exist and the manifest loads,
  \<^verbatim>\<open>main\<close> returns 0 exactly when the four checks collected no error and 1 exactly when
  they collected at least one; it returns nothing else. The warnings do not occur in the
  condition: a run with warnings and no error returns 0.
\<close>

theorem C3_exit_code:
  assumes "path_exists (templates_dir w) ''index.json''"
      and "path_exists (templates_dir w) ''index.schema.json''"
      and "index_json w = Inr index_data"
  shows "(snd (main w) = 0 \<longleftrightarrow>
            snd (validate_schema index_data (index_schema_json w)) = []
          \<and> fst (snd (check_file_consistency index_data (templates_dir w))) = []
          \<and> snd (check_duplicate_names index_data) = []
          \<and> snd (check_required_thumbnails index_data (templates_dir w)) = [])
       \<and> (snd (main w) = 1 \<longleftrightarrow>
            snd (validate_schema index_data (index_schema_json w))
            @ fst (snd (check_file_consistency index_data (templates_dir w)))
            @ snd (check_duplicate_names index_data)
            @ snd (check_required_thumbnails index_data (templates_dir w)) \<noteq> [])
       \<and> (snd (main w) = 0 \<or> snd (main w) = 1)"
  using main_loaded[OF assms] by (simp add: all_errors_def)

theorem C3_exit_code_witness:
  "snd (main ex_world_ok) = 0
   \<and> snd (snd (check_file_consistency [ex_category_ok] ex_directory)) =
       [''Media file not referenced in index.json: orphan.png'']
   \<and> snd (main ex_world_errors) = 1
   \<and> snd (check_required_thumbnails ex_manifest ex_directory) = [''Missing required thumbnail: sdxl-1.webp'']"
proof -
  have ok: "path_exists (templates_dir ex_world_ok) ''index.json''"
      "path_exists (templates_dir ex_world_ok) ''index.schema.json''"
      "index_json ex_world_ok = Inr [ex_category_ok]"
    by (simp_all add: ex_world_ok_def ex_directory_def)
  have bad: "path_exists (templates_dir ex_world_errors) ''index.json''"
      "path_exists (templates_dir ex_world_errors) ''index.schema.json''"
      "index_json ex_world_errors = Inr ex_manifest"
    by (simp_all add: ex_world_errors_def ex_directory_def)
  have dirs: "templates_dir ex_world_ok = ex_directory" "templates_dir ex_world_errors = ex_directory"
    "index_schema_json ex_world_ok = Inr (\<lambda>instance. Valid)"
    by (simp_all add: ex_world_ok_def ex_world_errors_def)
  show ?thesis
    using C3_exit_code[OF ok] C3_exit_code[OF bad]
    unfolding dirs ex_ok_consistency ex_ok_duplicates ex_ok_required ex_required
    by (simp add: validate_schema_def)
qed

text \<open>
  C4. Take the templates of the manifest in the order the loops visit them. When exactly
  two of them share a name, the earlier one in a category \<open>a\<close> and the later one in a
  category \<open>b\<close>, and all other names are different, \<^verbatim>\<open>check_duplicate_names\<close> returns
  exactly one error, which names the shared name, the title of \<open>a\<close> as the first-seen
  category and the title of \<open>b\<close> (a category without a title is named \<^verbatim>\<open>Unknown\<close>). When
  all names differ there is no error. In general the errors are, in order, one for each
  template whose name an earlier template has: the first occurrence of a name is never
  flagged, and the category reported as the original is that of the first occurrence in
  manifest order.
\<close>

theorem C4_duplicate_names:
  "(\<forall>xs a t1 ys b t2 zs.
      entries index_data = xs @ (a, t1) # ys @ (b, t2) # zs
      \<and> get_name t1 = get_name t2
      \<and> distinct (map (\<lambda>(c, t). get_name t) (xs @ (a, t1) # ys @ zs))
      \<longrightarrow> check_duplicate_names index_data =
            (False, [''Duplicate template name '' @ [CHR 0x27] @ get_name t2 @ [CHR 0x27]
                     @ '' found in categories '' @ [CHR 0x27] @ get_title_unknown a @ [CHR 0x27]
                     @ '' and '' @ [CHR 0x27] @ get_title_unknown b @ [CHR 0x27]]))
   \<and> (distinct (map (\<lambda>(c, t). get_name t) (entries index_data))
      \<longrightarrow> check_duplicate_names index_data = (True, []))
   \<and> snd (check_duplicate_names index_data) =
       map (\<lambda>(c, t). duplicate_msg (get_name t)
                       (the (first_seen (entries index_data) (get_name t))) (get_title_unknown c))
         (repeats (entries index_data))"
proof -
  have valid: "fst (check_duplicate_names index_data) = (snd (check_duplicate_names index_data) = [])"
    by (simp add: check_duplicate_names_def Let_def)
  have 1: "check_duplicate_names index_data =
            (False, [''Duplicate template name '' @ [CHR 0x27] @ get_name t2 @ [CHR 0x27]
                     @ '' found in categories '' @ [CHR 0x27] @ get_title_unknown a @ [CHR 0x27]
                     @ '' and '' @ [CHR 0x27] @ get_title_unknown b @ [CHR 0x27]])"
    if "entries index_data = xs @ (a, t1) # ys @ (b, t2) # zs" "get_name t1 = get_name t2"
       "distinct (map (\<lambda>(c, t). get_name t) (xs @ (a, t1) # ys @ zs))"
    for xs a t1 ys b t2 zs
  proof -
    have "snd (check_duplicate_names index_data) =
        [duplicate_msg (get_name t2) (get_title_unknown a) (get_title_unknown b)]"
      unfolding check_duplicate_names_repeats by (simp add: two_share[OF that])
    then show ?thesis using valid by (simp add: prod_eq_iff duplicate_msg_def)
  qed
  have 2: "check_duplicate_names index_data = (True, [])"
    if "distinct (map (\<lambda>(c, t). get_name t) (entries index_data))"
  proof -
    have "snd (check_duplicate_names index_data) = []"
      unfolding check_duplicate_names_repeats repeats_distinct[OF that] by simp
    then show ?thesis using valid by (simp add: prod_eq_iff)
  qed
  from 1 2 check_duplicate_names_repeats[of index_data] show ?thesis by blast
qed

theorem C4_duplicate_names_witness:
  "entries [ex_category_ok, ex_category_B2] =
     [] @ (ex_category_ok, \<lparr>name = Some ''flux_basic'', mediaSubtype = Some ''webp''\<rparr>)
        # [(ex_category_B2, \<lparr>name = Some ''sdxl'', mediaSubtype = Some ''webp''\<rparr>)]
        @ (ex_category_B2, \<lparr>name = Some ''flux_basic'', mediaSubtype = Some ''png''\<rparr>) # []
   \<and> check_duplicate_names [ex_category_ok, ex_category_B2] =
       (False, [''Duplicate template name 'flux_basic' found in categories 'A' and 'B'' @ [CHR 0x27]])
   \<and> check_duplicate_names [ex_category_ok] = (True, [])"
proof -
  have es: "entries [ex_category_ok, ex_category_B2] =
     [] @ (ex_category_ok, \<lparr>name = Some ''flux_basic'', mediaSubtype = Some ''webp''\<rparr>)
        # [(ex_category_B2, \<lparr>name = Some ''sdxl'', mediaSubtype = Some ''webp''\<rparr>)]
        @ (ex_category_B2, \<lparr>name = Some ''flux_basic'', mediaSubtype = Some ''png''\<rparr>) # []"
    by (simp add: entries_def get_templates_def ex_category_ok_def)
       (simp add: ex_category_B2_def)
  have es1: "entries [ex_category_ok] =
     [(ex_category_ok, \<lparr>name = Some ''flux_basic'', mediaSubtype = Some ''webp''\<rparr>)]"
    by (simp add: entries_def get_templates_def ex_category_ok_def)
  have titles: "get_title_unknown ex_category_ok = ''A''" "get_title_unknown ex_category_B2 = ''B''"
    by (simp_all add: get_title_unknown_def ex_category_ok_def ex_category_B2_def)
  have two: "check_duplicate_names [ex_category_ok, ex_category_B2] =
       (False, [''Duplicate template name 'flux_basic' found in categories 'A' and 'B'' @ [CHR 0x27]])"
    using C4_duplicate_names[of "[ex_category_ok, ex_category_B2]", THEN conjunct1, rule_format,
        of "[]" ex_category_ok "\<lparr>name = Some ''flux_basic'', mediaSubtype = Some ''webp''\<rparr>"
           "[(ex_category_B2, \<lparr>name = Some ''sdxl'', mediaSubtype = Some ''webp''\<rparr>)]"
           ex_category_B2 "\<lparr>name = Some ''flux_basic'', mediaSubtype = Some ''png''\<rparr>" "[]"]
      es
    by (simp add: get_name_def titles)
  have one: "check_duplicate_names [ex_category_ok] = (True, [])"
    using C4_duplicate_names[of "[ex_category_ok]"] by (simp add: es1)
  from es two one show ?thesis by blast
qed

text \<open>
  C5. For a template whose name is absent or empty, one pass of the inner loop of
  \<^verbatim>\<open>check_file_consistency\<close> appends exactly one error, which names the title of the
  enclosing category (printed as \<^verbatim>\<open>None\<close> when the category has no title), and changes
  nothing else: the referenced-workflows set, the referenced-thumbnails set and the trace
  of existence probes stay as they were. So the errors that \<^verbatim>\<open>check_file_consistency\<close>
  returns are one such error for each nameless template, in manifest order, followed by
  the errors for referenced workflow files that do not exist; the error that names a
  title occurs as often as there are nameless templates in categories of that title; and
  the workflow and thumbnail files the check looks for are those of the named templates
  alone.
\<close>

theorem C5_missing_name:
  assumes "name t = None \<or> name t = Some []"
  shows "process_template d c t st =
           st\<lparr>errors := errors st @
                [''Template in category '' @ [CHR 0x27] @ get_title c @ [CHR 0x27] @ '' missing name'']\<rparr>
       \<and> referenced_workflows (process_template d c t st) = referenced_workflows st
       \<and> referenced_thumbnails (process_template d c t st) = referenced_thumbnails st
       \<and> probes (process_template d c t st) = probes st
       \<and> errors (process_categories d index_data collected_init) =
           map (\<lambda>(c, t). ''Template in category '' @ [CHR 0x27] @ get_title c @ [CHR 0x27] @ '' missing name'')
             (filter (\<lambda>(c, t). name t = None \<or> name t = Some []) (entries index_data))
       \<and> fst (snd (check_file_consistency index_data d)) =
           map (\<lambda>(c, t). ''Template in category '' @ [CHR 0x27] @ get_title c @ [CHR 0x27] @ '' missing name'')
             (filter (\<lambda>(c, t). name t = None \<or> name t = Some []) (entries index_data))
           @ map (\<lambda>workflow. ''Referenced workflow file not found: '' @ workflow)
               (filter (\<lambda>workflow. \<not> path_exists d workflow)
                  (referenced_workflows (process_categories d index_data collected_init)))
       \<and> fst (check_file_consistency index_data d) = (fst (snd (check_file_consistency index_data d)) = [])
       \<and> count_list (fst (snd (check_file_consistency index_data d)))
            (''Template in category '' @ [CHR 0x27] @ ttl @ [CHR 0x27] @ '' missing name'') =
           length (filter (\<lambda>(c, t). (name t = None \<or> name t = Some []) \<and> get_title c = ttl)
                     (entries index_data))
       \<and> set (referenced_workflows (process_categories d index_data collected_init)) =
           {get_name t' @ ''.json'' | t'.
              t' \<in> set (concat (map get_templates index_data)) \<and> get_name t' \<noteq> []}
       \<and> set (referenced_thumbnails (process_categories d index_data collected_init)) =
           (\<Union>t' \<in> set (concat (map get_templates index_data)). template_thumbnails d t')"
proof -
  have empty: "get_name t = []" using assms by (auto simp: get_name_def)
  have step: "process_template d c t st =
      st\<lparr>errors := errors st @
           [''Template in category '' @ [CHR 0x27] @ get_title c @ [CHR 0x27] @ '' missing name'']\<rparr>"
    using empty by (simp add: process_template_def missing_name_msg_def)
  have "errors (process_categories d index_data collected_init) =
           map (\<lambda>(c, t). missing_name_msg c) (filter (\<lambda>(c, t). get_name t = []) (entries index_data))"
    by (simp add: process_categories_fold collect_errors collected_init_def)
  then have all: "errors (process_categories d index_data collected_init) =
           map (\<lambda>(c, t). ''Template in category '' @ [CHR 0x27] @ get_title c @ [CHR 0x27] @ '' missing name'')
             (filter (\<lambda>(c, t). name t = None \<or> name t = Some []) (entries index_data))"
    by (simp add: nameless_iff missing_name_msg_def)
  have out: "fst (snd (check_file_consistency index_data d)) =
           map (\<lambda>(c, t). ''Template in category '' @ [CHR 0x27] @ get_title c @ [CHR 0x27] @ '' missing name'')
             (filter (\<lambda>(c, t). name t = None \<or> name t = Some []) (entries index_data))
           @ map (\<lambda>workflow. ''Referenced workflow file not found: '' @ workflow)
               (filter (\<lambda>workflow. \<not> path_exists d workflow)
                  (referenced_workflows (process_categories d index_data collected_init)))"
    unfolding consistency_errors all by (simp add: workflow_not_found_msg_def)
  have valid: "fst (check_file_consistency index_data d) = (fst (snd (check_file_consistency index_data d)) = [])"
    by (simp add: check_file_consistency_def Let_def)
  have cnt: "count_list (fst (snd (check_file_consistency index_data d)))
            (''Template in category '' @ [CHR 0x27] @ ttl @ [CHR 0x27] @ '' missing name'') =
           length (filter (\<lambda>(c, t). (name t = None \<or> name t = Some []) \<and> get_title c = ttl)
                     (entries index_data))"
    using missing_name_count[of index_data d ttl] by (simp add: nameless_iff)
  have wf: "set (referenced_workflows (process_categories d index_data collected_init)) =
           {get_name t' @ ''.json'' | t'.
              t' \<in> set (concat (map get_templates index_data)) \<and> get_name t' \<noteq> []}"
    by (simp add: process_categories_fold collect_workflows collected_init_def templates_of_entries)
  have th: "set (referenced_thumbnails (process_categories d index_data collected_init)) =
           (\<Union>t' \<in> set (concat (map get_templates index_data)). template_thumbnails d t')"
    by (simp add: process_categories_fold collect_thumbnails collected_init_def templates_of_entries)
  have s2: "referenced_workflows (process_template d c t st) = referenced_workflows st
      \<and> referenced_thumbnails (process_template d c t st) = referenced_thumbnails st
      \<and> probes (process_template d c t st) = probes st"
    unfolding step by simp
  from step s2 all out valid cnt wf th show ?thesis by blast
qed

theorem C5_missing_name_witness:
  "process_template ex_directory \<lparr>title = Some ''A'', templates = None\<rparr>
       \<lparr>name = None, mediaSubtype = Some ''webp''\<rparr> collected_init =
     \<lparr>errors = [''Template in category 'A' missing name''], referenced_workflows = [],
      referenced_thumbnails = [], probes = []\<rparr>
   \<and> process_template ex_directory \<lparr>title = None, templates = None\<rparr>
       \<lparr>name = Some [], mediaSubtype = Some ''webp''\<rparr> collected_init =
     \<lparr>errors = [''Template in category 'None' missing name''], referenced_workflows = [],
      referenced_thumbnails = [], probes = []\<rparr>
   \<and> errors (process_categories ex_directory ex_manifest collected_init) =
       [''Template in category 'A' missing name'', ''Template in category 'B' missing name'']
   \<and> fst (snd (check_file_consistency ex_manifest ex_directory)) =
       [''Template in category 'A' missing name'', ''Template in category 'B' missing name'',
        ''Referenced workflow file not found: sdxl.json'']
   \<and> fst (check_file_consistency ex_manifest ex_directory) = False
   \<and> count_list (fst (snd (check_file_consistency ex_manifest ex_directory)))
        ''Template in category 'A' missing name'' = 1
   \<and> set (referenced_workflows (process_categories ex_directory ex_manifest collected_init)) =
       {''flux_basic.json'', ''sdxl.json''}"
proof -
  have es: "filter (\<lambda>(c, t). name t = None \<or> name t = Some []) (entries ex_manifest) =
      [(ex_category_A, \<lparr>name = None, mediaSubtype = Some ''webp''\<rparr>),
       (ex_category_B, \<lparr>name = Some [], mediaSubtype = None\<rparr>)]"
    by (simp add: ex_entries)
  have esA: "filter (\<lambda>(c, t). (name t = None \<or> name t = Some []) \<and> get_title c = ''A'') (entries ex_manifest) =
      [(ex_category_A, \<lparr>name = None, mediaSubtype = Some ''webp''\<rparr>)]"
    by (simp add: ex_entries get_title_def ex_category_A_def ex_category_B_def)
  have rw: "referenced_workflows (process_categories ex_directory ex_manifest collected_init) =
      [''flux_basic.json'', ''sdxl.json'']"
    by (simp add: ex_eval)
  have wf: "filter (\<lambda>workflow. \<not> path_exists ex_directory workflow) [''flux_basic.json'', ''sdxl.json''] =
      [''sdxl.json'']"
    by (simp add: ex_directory_def)
  have q: "''Template in category '' @ [CHR 0x27] @ ''A'' @ [CHR 0x27] @ '' missing name'' =
      ''Template in category 'A' missing name''"
    by simp
  show ?thesis
    using
      C5_missing_name[of "\<lparr>name = None, mediaSubtype = Some ''webp''\<rparr>" ex_directory
        "\<lparr>title = Some ''A'', templates = None\<rparr>" collected_init ex_manifest "''A''"]
      C5_missing_name[of "\<lparr>name = Some [], mediaSubtype = Some ''webp''\<rparr>" ex_directory
        "\<lparr>title = None, templates = None\<rparr>" collected_init ex_manifest "''A''"]
    unfolding es esA rw wf q
    by (simp add: collected_init_def get_title_def ex_category_A_def ex_category_B_def)
qed

text \<open>
  C6. The errors of \<^verbatim>\<open>check_required_thumbnails\<close> are, in manifest order, one message
  \<^verbatim>\<open>Missing required thumbnail: <name>-1.<mediaSubtype>\<close> for each template that has a
  non-empty name and a non-empty mediaSubtype and whose file \<^verbatim>\<open><name>-1.<mediaSubtype>\<close>
  does not exist; a template that misses either field, or whose file exists, adds nothing.
  The same holds of one pass of the loop body.
\<close>

theorem C6_required_thumbnails:
  "snd (check_required_thumbnails index_data d) =
     map (\<lambda>t. ''Missing required thumbnail: '' @ get_name t @ ''-1.'' @ get_mediaSubtype t)
       (filter (\<lambda>t. get_name t \<noteq> [] \<and> get_mediaSubtype t \<noteq> []
                    \<and> \<not> path_exists d (get_name t @ ''-1.'' @ get_mediaSubtype t))
          (concat (map get_templates index_data)))
   \<and> fst (check_required_thumbnails index_data d) = (snd (check_required_thumbnails index_data d) = [])
   \<and> required_step d t errs =
       errs @ (if get_name t \<noteq> [] \<and> get_mediaSubtype t \<noteq> []
                  \<and> \<not> path_exists d (get_name t @ ''-1.'' @ get_mediaSubtype t)
               then [''Missing required thumbnail: '' @ get_name t @ ''-1.'' @ get_mediaSubtype t]
               else [])"
proof -
  have lacks: "lacks_thumbnail d = (\<lambda>t. get_name t \<noteq> [] \<and> get_mediaSubtype t \<noteq> []
                    \<and> \<not> path_exists d (get_name t @ ''-1.'' @ get_mediaSubtype t))"
    by (simp add: lacks_thumbnail_def fun_eq_iff)
  have msg: "(\<lambda>t. missing_thumbnail_msg (get_name t) (get_mediaSubtype t)) =
             (\<lambda>t. ''Missing required thumbnail: '' @ get_name t @ ''-1.'' @ get_mediaSubtype t)"
    by (simp add: missing_thumbnail_msg_def fun_eq_iff)
  have "snd (check_required_thumbnails index_data d) =
     map (\<lambda>t. missing_thumbnail_msg (get_name t) (get_mediaSubtype t))
       (filter (lacks_thumbnail d) (concat (map get_templates index_data)))"
    by (simp add: check_required_thumbnails_def Let_def required_categories_fold required_fold)
  then have a: "snd (check_required_thumbnails index_data d) =
     map (\<lambda>t. ''Missing required thumbnail: '' @ get_name t @ ''-1.'' @ get_mediaSubtype t)
       (filter (\<lambda>t. get_name t \<noteq> [] \<and> get_mediaSubtype t \<noteq> []
                    \<and> \<not> path_exists d (get_name t @ ''-1.'' @ get_mediaSubtype t))
          (concat (map get_templates index_data)))"
    unfolding lacks msg .
  have b: "fst (check_required_thumbnails index_data d) = (snd (check_required_thumbnails index_data d) = [])"
    by (simp add: check_required_thumbnails_def Let_def)
  have c: "required_step d t errs =
       errs @ (if get_name t \<noteq> [] \<and> get_mediaSubtype t \<noteq> []
                  \<and> \<not> path_exists d (get_name t @ ''-1.'' @ get_mediaSubtype t)
               then [''Missing required thumbnail: '' @ get_name t @ ''-1.'' @ get_mediaSubtype t]
               else [])"
    by (simp add: required_step_def Let_def missing_thumbnail_msg_def)
  from a b c show ?thesis by blast
qed

theorem C6_required_thumbnails_witness:
  "check_required_thumbnails ex_manifest ex_directory = (False, [''Missing required thumbnail: sdxl-1.webp''])
   \<and> path_exists ex_directory ''flux_basic-1.webp'' \<and> \<not> path_exists ex_directory ''sdxl-1.webp''
   \<and> required_step ex_directory \<lparr>name = Some ''sdxl'', mediaSubtype = Some ''webp''\<rparr> [] =
       [''Missing required thumbnail: sdxl-1.webp'']
   \<and> required_step ex_directory \<lparr>name = Some ''flux_basic'', mediaSubtype = Some ''webp''\<rparr> [] = []"
proof -
  have ts: "concat (map get_templates ex_manifest) =
     [\<lparr>name = Some ''flux_basic'', mediaSubtype = Some ''webp''\<rparr>,
      \<lparr>name = None, mediaSubtype = Some ''webp''\<rparr>,
      \<lparr>name = Some ''sdxl'', mediaSubtype = Some ''webp''\<rparr>,
      \<lparr>name = Some ''flux_basic'', mediaSubtype = None\<rparr>,
      \<lparr>name = Some [], mediaSubtype = None\<rparr>]"
    by (simp add: ex_manifest_def get_templates_def ex_category_A_def ex_category_B_def ex_category_bare_def)
  have "snd (check_required_thumbnails ex_manifest ex_directory) = [''Missing required thumbnail: sdxl-1.webp'']
      \<and> fst (check_required_thumbnails ex_manifest ex_directory) = False
      \<and> required_step ex_directory \<lparr>name = Some ''sdxl'', mediaSubtype = Some ''webp''\<rparr> [] =
           [''Missing required thumbnail: sdxl-1.webp'']"
    using C6_required_thumbnails[of ex_manifest ex_directory
        "\<lparr>name = Some ''sdxl'', mediaSubtype = Some ''webp''\<rparr>" "[]"]
    unfolding ts by (simp add: get_name_def get_mediaSubtype_def ex_directory_def)
  moreover have "required_step ex_directory \<lparr>name = Some ''flux_basic'', mediaSubtype = Some ''webp''\<rparr> [] = []"
    using C6_required_thumbnails[of ex_manifest ex_directory
        "\<lparr>name = Some ''flux_basic'', mediaSubtype = Some ''webp''\<rparr>" "[]"]
    by (simp add: get_name_def get_mediaSubtype_def ex_directory_def)
  ultimately show ?thesis by (simp add: prod_eq_iff ex_directory_def)
qed

text \<open>
  C7. With one state of the directory for the whole call, every member of the
  referenced-thumbnails set exists on disk, so the loop of lines 80 to 83 appends nothing:
  the errors of \<^verbatim>\<open>check_file_consistency\<close> are the missing-name errors followed by
  the workflow-not-found errors, and no message "Referenced thumbnail file not found" is
  among them.
\<close>

theorem C7_thumbnail_recheck_unreachable:
  "(\<forall>thumbnail \<in> set (referenced_thumbnails (process_categories d index_data collected_init)).
      path_exists d thumbnail)
   \<and> filter (\<lambda>thumbnail. \<not> path_exists d thumbnail)
        (referenced_thumbnails (process_categories d index_data collected_init)) = []
   \<and> fst (snd (check_file_consistency index_data d)) =
        errors (process_categories d index_data collected_init)
        @ map workflow_not_found_msg
            (filter (\<lambda>workflow. \<not> path_exists d workflow)
               (referenced_workflows (process_categories d index_data collected_init)))
   \<and> (\<forall>thumbnail. thumbnail_not_found_msg thumbnail \<notin> set (fst (snd (check_file_consistency index_data d))))"
proof -
  let ?st = "process_categories d index_data collected_init"
  have ex: "\<forall>thumbnail \<in> set (referenced_thumbnails ?st). path_exists d thumbnail"
    by (auto simp: process_categories_fold collect_thumbnails collected_init_def
             dest: template_thumbnails_exist)
  then have none: "filter (\<lambda>thumbnail. \<not> path_exists d thumbnail) (referenced_thumbnails ?st) = []"
    by (simp add: filter_empty_conv)
  have errs: "fst (snd (check_file_consistency index_data d)) =
        errors ?st @ map workflow_not_found_msg
            (filter (\<lambda>workflow. \<not> path_exists d workflow) (referenced_workflows ?st))"
    by (simp add: check_file_consistency_def Let_def none)
  have "errors ?st = map (\<lambda>(c, t). missing_name_msg c) (filter (\<lambda>(c, t). get_name t = []) (entries index_data))"
    by (simp add: process_categories_fold collect_errors collected_init_def)
  then have "\<forall>thumbnail. thumbnail_not_found_msg thumbnail \<notin> set (fst (snd (check_file_consistency index_data d)))"
    unfolding errs
    by (auto simp: thumbnail_not_found_msg_def workflow_not_found_msg_def missing_name_msg_def)
  with ex none errs show ?thesis by blast
qed

theorem C7_thumbnail_recheck_unreachable_witness:
  "''flux_basic-1.webp'' \<in> set (referenced_thumbnails (process_categories ex_directory ex_manifest collected_init))
   \<and> path_exists ex_directory ''flux_basic-1.webp''
   \<and> fst (snd (check_file_consistency ex_manifest ex_directory)) =
        [''Template in category 'A' missing name'', ''Template in category 'B' missing name'',
         ''Referenced workflow file not found: sdxl.json'']"
proof -
  have st: "process_categories ex_directory ex_manifest collected_init =
     \<lparr>errors = [''Template in category 'A' missing name'', ''Template in category 'B' missing name''],
      referenced_workflows = [''flux_basic.json'', ''sdxl.json''],
      referenced_thumbnails = [''flux_basic-1.webp''],
      probes = map (\<lambda>i. thumbnail_file ''flux_basic'' i ''webp'') [1..<10]
             @ map (\<lambda>i. thumbnail_file ''sdxl'' i ''webp'') [1..<10]\<rparr>"
    by (simp add: ex_eval missing_name_msg_def)
  have mem: "''flux_basic-1.webp'' \<in> set (referenced_thumbnails (process_categories ex_directory ex_manifest collected_init))"
    unfolding st by simp
  have wf: "filter (\<lambda>workflow. \<not> path_exists ex_directory workflow) [''flux_basic.json'', ''sdxl.json''] = [''sdxl.json'']"
    by (simp add: ex_directory_def)
  show ?thesis
    using C7_thumbnail_recheck_unreachable[of ex_directory ex_manifest] mem
    unfolding st by (simp add: wf workflow_not_found_msg_def ex_directory_def)
qed

text \<open>
  C8, as the code has it. For a template with a non-empty name and mediaSubtype, one pass
  of the loop body probes \<^verbatim>\<open><name>-1.<mediaSubtype>\<close> to \<^verbatim>\<open><name>-9.<mediaSubtype>\<close> and
  nothing else, and adds to the referenced-thumbnails set exactly those of the nine that
  exist; \<^verbatim>\<open><name>-10.<mediaSubtype>\<close> is not among the names it probes or adds. When the
  template is in the manifest, its name does not contain \<^verbatim>\<open>.json\<close> and the tenth file's
  name does not end in \<^verbatim>\<open>.json\<close>, no warning of \<^verbatim>\<open>check_file_consistency\<close> is about that
  file; when the file exists, no error of \<^verbatim>\<open>check_file_consistency\<close> or of
  \<^verbatim>\<open>check_required_thumbnails\<close> is about it either.
\<close>

theorem C8_thumbnail_bound:
  "(get_name t \<noteq> [] \<and> get_mediaSubtype t \<noteq> [] \<longrightarrow>
      set (referenced_thumbnails (process_template d c t st)) =
        set (referenced_thumbnails st) \<union>
        {thumbnail_file (get_name t) i (get_mediaSubtype t) | i.
           1 \<le> i \<and> i \<le> 9 \<and> path_exists d (thumbnail_file (get_name t) i (get_mediaSubtype t))}
      \<and> probes (process_template d c t st) =
        probes st @ map (\<lambda>i. thumbnail_file (get_name t) i (get_mediaSubtype t)) [1..<10]
      \<and> thumbnail_file (get_name t) 10 (get_mediaSubtype t) \<notin>
          set (map (\<lambda>i. thumbnail_file (get_name t) i (get_mediaSubtype t)) [1..<10]))
   \<and> (t \<in> set (concat (map get_templates index_data))
       \<and> get_name t \<noteq> [] \<and> get_mediaSubtype t \<noteq> []
       \<and> \<not> contains (get_name t) ''.json''
       \<and> \<not> endswith (thumbnail_file (get_name t) 10 (get_mediaSubtype t)) ''.json'' \<longrightarrow>
      ''Media file not referenced in index.json: '' @ thumbnail_file (get_name t) 10 (get_mediaSubtype t)
         \<notin> set (snd (snd (check_file_consistency index_data d)))
      \<and> ''Workflow file not referenced in index.json: '' @ thumbnail_file (get_name t) 10 (get_mediaSubtype t)
         \<notin> set (snd (snd (check_file_consistency index_data d)))
      \<and> (path_exists d (thumbnail_file (get_name t) 10 (get_mediaSubtype t)) \<longrightarrow>
          ''Referenced workflow file not found: '' @ thumbnail_file (get_name t) 10 (get_mediaSubtype t)
             \<notin> set (fst (snd (check_file_consistency index_data d)))
          \<and> ''Referenced thumbnail file not found: '' @ thumbnail_file (get_name t) 10 (get_mediaSubtype t)
             \<notin> set (fst (snd (check_file_consistency index_data d)))
          \<and> ''Missing required thumbnail: '' @ thumbnail_file (get_name t) 10 (get_mediaSubtype t)
             \<notin> set (snd (check_required_thumbnails index_data d))))"
proof -
  let ?f = "thumbnail_file (get_name t) 10 (get_mediaSubtype t)"
  have a: "set (referenced_thumbnails (process_template d c t st)) =
        set (referenced_thumbnails st) \<union>
        {thumbnail_file (get_name t) i (get_mediaSubtype t) | i.
           1 \<le> i \<and> i \<le> 9 \<and> path_exists d (thumbnail_file (get_name t) i (get_mediaSubtype t))}
      \<and> probes (process_template d c t st) =
        probes st @ map (\<lambda>i. thumbnail_file (get_name t) i (get_mediaSubtype t)) [1..<10]
      \<and> ?f \<notin> set (map (\<lambda>i. thumbnail_file (get_name t) i (get_mediaSubtype t)) [1..<10])"
    if "get_name t \<noteq> []" "get_mediaSubtype t \<noteq> []"
  proof -
    have "set (referenced_thumbnails (process_template d c t st)) =
        set (referenced_thumbnails st) \<union> template_thumbnails d t"
      by (rule process_template_thumbnails)
    then have 1: "set (referenced_thumbnails (process_template d c t st)) =
        set (referenced_thumbnails st) \<union>
        {thumbnail_file (get_name t) i (get_mediaSubtype t) | i.
           1 \<le> i \<and> i \<le> 9 \<and> path_exists d (thumbnail_file (get_name t) i (get_mediaSubtype t))}"
      using that by (simp add: template_thumbnails_def)
    have 2: "probes (process_template d c t st) =
        probes st @ map (\<lambda>i. thumbnail_file (get_name t) i (get_mediaSubtype t)) [1..<10]"
      using that by (simp add: process_template_def Let_def probe_probes)
    from 1 2 tenth_not_probed[of "get_name t" "get_mediaSubtype t"] show ?thesis by blast
  qed
  have b: "''Media file not referenced in index.json: '' @ ?f \<notin> set (snd (snd (check_file_consistency index_data d)))
      \<and> ''Workflow file not referenced in index.json: '' @ ?f \<notin> set (snd (snd (check_file_consistency index_data d)))
      \<and> (path_exists d ?f \<longrightarrow>
          ''Referenced workflow file not found: '' @ ?f \<notin> set (fst (snd (check_file_consistency index_data d)))
          \<and> ''Referenced thumbnail file not found: '' @ ?f \<notin> set (fst (snd (check_file_consistency index_data d)))
          \<and> ''Missing required thumbnail: '' @ ?f \<notin> set (snd (check_required_thumbnails index_data d)))"
    if t: "t \<in> set (concat (map get_templates index_data))" and nm: "get_name t \<noteq> []"
      and nj: "\<not> contains (get_name t) ''.json''" and ne: "\<not> endswith ?f ''.json''"
  proof -
    have "count_list (snd (snd (check_file_consistency index_data d))) (media_orphan_msg ?f) = 0"
      unfolding media_warning_count using tenth_is_referenced[OF t nm nj] by simp
    then have 1: "''Media file not referenced in index.json: '' @ ?f \<notin> set (snd (snd (check_file_consistency index_data d)))"
      by (simp add: count_list_0_iff media_orphan_msg_def)
    have 2: "''Workflow file not referenced in index.json: '' @ ?f \<notin> set (snd (snd (check_file_consistency index_data d)))"
      using workflow_warning_suffix[OF ne, of index_data d] by (simp add: workflow_orphan_msg_def)
    have 3: "''Referenced workflow file not found: '' @ ?f \<notin> set (fst (snd (check_file_consistency index_data d)))
          \<and> ''Referenced thumbnail file not found: '' @ ?f \<notin> set (fst (snd (check_file_consistency index_data d)))
          \<and> ''Missing required thumbnail: '' @ ?f \<notin> set (snd (check_required_thumbnails index_data d))"
      if "path_exists d ?f"
      using consistency_errors_existing[OF that, of index_data] required_errors_existing[OF that, of index_data]
      by (simp add: workflow_not_found_msg_def thumbnail_not_found_msg_def)
    from 1 2 3 show ?thesis by blast
  qed
  from a b show ?thesis by blast
qed

theorem C8_thumbnail_bound_witness:
  "probes (process_template ex_directory_ten ex_category_ok
             \<lparr>name = Some ''flux_basic'', mediaSubtype = Some ''webp''\<rparr> collected_init) =
     [''flux_basic-1.webp'', ''flux_basic-2.webp'', ''flux_basic-3.webp'', ''flux_basic-4.webp'',
      ''flux_basic-5.webp'', ''flux_basic-6.webp'', ''flux_basic-7.webp'', ''flux_basic-8.webp'',
      ''flux_basic-9.webp'']
   \<and> referenced_thumbnails (process_template ex_directory_ten ex_category_ok
             \<lparr>name = Some ''flux_basic'', mediaSubtype = Some ''webp''\<rparr> collected_init) =
     [''flux_basic-1.webp'']
   \<and> path_exists ex_directory_ten ''flux_basic-10.webp''
   \<and> ''flux_basic-10.webp'' \<in> set (file_names ex_directory_ten)
   \<and> ''Media file not referenced in index.json: flux_basic-10.webp''
        \<notin> set (snd (snd (check_file_consistency [ex_category_ok] ex_directory_ten)))
   \<and> ''Workflow file not referenced in index.json: flux_basic-10.webp''
        \<notin> set (snd (snd (check_file_consistency [ex_category_ok] ex_directory_ten)))
   \<and> ''Referenced workflow file not found: flux_basic-10.webp''
        \<notin> set (fst (snd (check_file_consistency [ex_category_ok] ex_directory_ten)))
   \<and> ''Missing required thumbnail: flux_basic-10.webp''
        \<notin> set (snd (check_required_thumbnails [ex_category_ok] ex_directory_ten))"
proof -
  let ?t = "\<lparr>name = Some ''flux_basic'', mediaSubtype = Some ''webp''\<rparr>"
  have nm: "get_name ?t = ''flux_basic''" "get_mediaSubtype ?t = ''webp''"
    by (simp_all add: get_name_def get_mediaSubtype_def)
  have f10: "thumbnail_file ''flux_basic'' 10 ''webp'' = ''flux_basic-10.webp''"
    by (simp add: thumbnail_file_def str_nat_10)
  have ps: "map (\<lambda>i. thumbnail_file ''flux_basic'' i ''webp'') [1..<10] =
     [''flux_basic-1.webp'', ''flux_basic-2.webp'', ''flux_basic-3.webp'', ''flux_basic-4.webp'',
      ''flux_basic-5.webp'', ''flux_basic-6.webp'', ''flux_basic-7.webp'', ''flux_basic-8.webp'',
      ''flux_basic-9.webp'']"
    by (simp add: upt_rec thumbnail_file_def str_nat.simps digit_char_def)
  have h1: "get_name ?t \<noteq> [] \<and> get_mediaSubtype ?t \<noteq> []"
    by (simp add: nm)
  have h2: "?t \<in> set (concat (map get_templates [ex_category_ok]))
       \<and> get_name ?t \<noteq> [] \<and> get_mediaSubtype ?t \<noteq> []
       \<and> \<not> contains (get_name ?t) ''.json''
       \<and> \<not> endswith (thumbnail_file (get_name ?t) 10 (get_mediaSubtype ?t)) ''.json''"
    unfolding nm f10
    by (simp add: get_templates_def ex_category_ok_def contains_def endswith_def suffix_to_prefix)
  have ex10: "path_exists ex_directory_ten (thumbnail_file (get_name ?t) 10 (get_mediaSubtype ?t))"
    unfolding nm f10 by (simp add: ex_directory_ten_def)
  have rt: "referenced_thumbnails (process_template ex_directory_ten ex_category_ok ?t collected_init) =
     [''flux_basic-1.webp'']"
    by (simp add: process_template_def nm Let_def collected_init_def upt_rec thumbnail_file_def
          str_nat.simps digit_char_def set_add_def ex_directory_ten_def)
  have "probes (process_template ex_directory_ten ex_category_ok ?t collected_init) =
          probes collected_init @ map (\<lambda>i. thumbnail_file (get_name ?t) i (get_mediaSubtype ?t)) [1..<10]
      \<and> ''Media file not referenced in index.json: '' @ thumbnail_file (get_name ?t) 10 (get_mediaSubtype ?t)
           \<notin> set (snd (snd (check_file_consistency [ex_category_ok] ex_directory_ten)))
      \<and> ''Workflow file not referenced in index.json: '' @ thumbnail_file (get_name ?t) 10 (get_mediaSubtype ?t)
           \<notin> set (snd (snd (check_file_consistency [ex_category_ok] ex_directory_ten)))
      \<and> ''Referenced workflow file not found: '' @ thumbnail_file (get_name ?t) 10 (get_mediaSubtype ?t)
           \<notin> set (fst (snd (check_file_consistency [ex_category_ok] ex_directory_ten)))
      \<and> ''Missing required thumbnail: '' @ thumbnail_file (get_name ?t) 10 (get_mediaSubtype ?t)
           \<notin> set (snd (check_required_thumbnails [ex_category_ok] ex_directory_ten))"
    using C8_thumbnail_bound[of ?t ex_directory_ten ex_category_ok collected_init "[ex_category_ok]"]
      h1 h2 ex10
    by blast
  then show ?thesis
    unfolding nm f10 ps using rt
    by (simp add: collected_init_def ex_directory_ten_def)
qed

text \<open>
  C8 as stated fails when the tenth thumbnail's name ends in \<^verbatim>\<open>.json\<close>: the file then counts
  as a workflow file, and the run warns about it.
\<close>

theorem C8_thumbnail_bound_counterexample:
  "get_templates ex_category_json = [\<lparr>name = Some ''a'', mediaSubtype = Some ''json''\<rparr>]
   \<and> thumbnail_file ''a'' 10 ''json'' = ''a-10.json''
   \<and> path_exists ex_directory_json ''a-10.json''
   \<and> ''a-10.json'' \<in> set (file_names ex_directory_json)
   \<and> check_file_consistency [ex_category_json] ex_directory_json =
       (True, [],
        [''Workflow file not referenced in index.json: a-1.json'',
         ''Workflow file not referenced in index.json: a-10.json''])"
  by (simp add: ex_directory_json_def ex_category_json_def check_eval collected_init_def
        process_template_def get_templates_def get_name_def get_mediaSubtype_def Let_def
        set_add_def thumbnail_file_def upt_rec str_nat.simps digit_char_def)

text \<open>
  C9. \<^verbatim>\<open>check_duplicate_names\<close> does not skip a template whose name is absent or empty.
  The loop body looks the empty string up in \<^verbatim>\<open>seen_names\<close> like any other name: when
  it is not there it is recorded with the category title, and when it is there an error
  for the name \<^verbatim>\<open>''\<close> is appended. Over a whole manifest the errors are one for each
  template whose name an earlier template has, and the nameless templates among these are
  all the nameless templates but the first. The first loop of \<^verbatim>\<open>check_file_consistency\<close> reports each nameless template, the first included, as missing its name.
\<close>

theorem C9_duplicate_check_keeps_nameless:
  "(get_name t = [] \<and> snd st [] = None \<longrightarrow>
      duplicate_step category_title t st = (fst st, (snd st)([] \<mapsto> category_title)))
   \<and> (get_name t = [] \<and> snd st [] = Some first_title \<longrightarrow>
      duplicate_step category_title t st =
        (fst st @ [''Duplicate template name '' @ [CHR 0x27, CHR 0x27] @ '' found in categories ''
                   @ [CHR 0x27] @ first_title @ [CHR 0x27] @ '' and ''
                   @ [CHR 0x27] @ category_title @ [CHR 0x27]], snd st))
   \<and> snd (check_duplicate_names index_data) =
       map (\<lambda>(c, t). duplicate_msg (get_name t)
                       (the (first_seen (entries index_data) (get_name t))) (get_title_unknown c))
         (repeats (entries index_data))
   \<and> filter (\<lambda>(c, t). name t = None \<or> name t = Some []) (repeats (entries index_data)) =
       tl (filter (\<lambda>(c, t). name t = None \<or> name t = Some []) (entries index_data))
   \<and> errors (process_categories d index_data collected_init) =
       map (\<lambda>(c, t). missing_name_msg c)
         (filter (\<lambda>(c, t). name t = None \<or> name t = Some []) (entries index_data))"
proof -
  have 1: "get_name t = [] \<and> snd st [] = None \<longrightarrow>
      duplicate_step category_title t st = (fst st, (snd st)([] \<mapsto> category_title))"
    by (simp add: duplicate_step_def Let_def)
  have 2: "get_name t = [] \<and> snd st [] = Some first_title \<longrightarrow>
      duplicate_step category_title t st =
        (fst st @ [''Duplicate template name '' @ [CHR 0x27, CHR 0x27] @ '' found in categories ''
                   @ [CHR 0x27] @ first_title @ [CHR 0x27] @ '' and ''
                   @ [CHR 0x27] @ category_title @ [CHR 0x27]], snd st)"
    by (simp add: duplicate_step_def Let_def duplicate_msg_def)
  have 4: "filter (\<lambda>(c, t). name t = None \<or> name t = Some []) (repeats (entries index_data)) =
       tl (filter (\<lambda>(c, t). name t = None \<or> name t = Some []) (entries index_data))"
    using repeats_filter_name[of "[]" "entries index_data"] by (simp add: nameless_iff)
  have 5: "errors (process_categories d index_data collected_init) =
       map (\<lambda>(c, t). missing_name_msg c)
         (filter (\<lambda>(c, t). name t = None \<or> name t = Some []) (entries index_data))"
    by (simp add: process_categories_fold collect_errors collected_init_def nameless_iff)
  from 1 2 check_duplicate_names_repeats[of index_data] 4 5 show ?thesis by blast
qed

theorem C9_duplicate_check_keeps_nameless_witness:
  "duplicate_step ''A'' \<lparr>name = None, mediaSubtype = None\<rparr> ([], Map.empty) = ([], [[] \<mapsto> ''A''])
   \<and> duplicate_step ''B'' \<lparr>name = Some [], mediaSubtype = None\<rparr> ([], [[] \<mapsto> ''A'']) =
       ([''Duplicate template name '' @ [CHR 0x27, CHR 0x27] @ '' found in categories 'A' and 'B'' @ [CHR 0x27]],
        [[] \<mapsto> ''A''])
   \<and> filter (\<lambda>(c, t). name t = None \<or> name t = Some []) (repeats (entries ex_manifest)) =
       [(ex_category_B, \<lparr>name = Some [], mediaSubtype = None\<rparr>)]
   \<and> errors (process_categories ex_directory ex_manifest collected_init) =
       [''Template in category 'A' missing name'', ''Template in category 'B' missing name'']"
proof -
  have a: "get_name \<lparr>name = None, mediaSubtype = None\<rparr> = [] \<and> snd ([], Map.empty :: string \<rightharpoonup> string) [] = None"
    by (simp add: get_name_def)
  have b: "get_name \<lparr>name = Some [], mediaSubtype = None\<rparr> = []
      \<and> snd ([] :: string list, [[] \<mapsto> ''A''] :: string \<rightharpoonup> string) [] = Some ''A''"
    by (simp add: get_name_def)
  have titles: "get_title ex_category_A = ''A''" "get_title ex_category_B = ''B''"
    by (simp_all add: get_title_def ex_category_A_def ex_category_B_def)
  show ?thesis
    using a b
      C9_duplicate_check_keeps_nameless[of "\<lparr>name = None, mediaSubtype = None\<rparr>"
        "([], Map.empty)" "''A''" "''A''" ex_manifest ex_directory]
      C9_duplicate_check_keeps_nameless[of "\<lparr>name = Some [], mediaSubtype = None\<rparr>"
        "([], [[] \<mapsto> ''A''])" "''B''" "''A''" ex_manifest ex_directory]
    by (simp add: ex_entries missing_name_msg_def titles)
qed

text \<open>
  C10. A category without the \<^verbatim>\<open>templates\<close> key counts as a category with no
  templates: removing it from the manifest changes the result of none of the three
  manifest-driven checks, and a manifest made of such a category alone yields no error
  from any of them.
\<close>

theorem C10_missing_templates_field:
  assumes "templates c = None"
  shows "check_file_consistency (m1 @ c # m2) d = check_file_consistency (m1 @ m2) d
       \<and> check_duplicate_names (m1 @ c # m2) = check_duplicate_names (m1 @ m2)
       \<and> check_required_thumbnails (m1 @ c # m2) d = check_required_thumbnails (m1 @ m2) d
       \<and> fst (snd (check_file_consistency [c] d)) = []
       \<and> check_duplicate_names [c] = (True, [])
       \<and> check_required_thumbnails [c] d = (True, [])"
proof -
  have none: "get_templates c = []" using assms by (simp add: get_templates_def)
  have e: "entries (m1 @ c # m2) = entries (m1 @ m2)" by (rule entries_skip[OF none])
  have 1: "check_file_consistency (m1 @ c # m2) d = check_file_consistency (m1 @ m2) d"
    unfolding check_file_consistency_def process_categories_fold e ..
  have 2: "check_duplicate_names (m1 @ c # m2) = check_duplicate_names (m1 @ m2)"
    unfolding check_duplicate_names_def duplicate_categories_fold e ..
  have 3: "check_required_thumbnails (m1 @ c # m2) d = check_required_thumbnails (m1 @ m2) d"
    unfolding check_required_thumbnails_def required_categories_fold by (simp add: none)
  have 4: "fst (snd (check_file_consistency [c] d)) = []"
    by (simp add: check_file_consistency_def none collected_init_def)
  have 5: "check_duplicate_names [c] = (True, [])"
    by (simp add: check_duplicate_names_def none)
  have 6: "check_required_thumbnails [c] d = (True, [])"
    by (simp add: check_required_thumbnails_def none)
  from 1 2 3 4 5 6 show ?thesis by blast
qed

theorem C10_missing_templates_field_witness:
  "templates ex_category_bare = None
   \<and> check_file_consistency ex_manifest ex_directory =
       check_file_consistency [ex_category_A, ex_category_B] ex_directory
   \<and> check_duplicate_names ex_manifest = check_duplicate_names [ex_category_A, ex_category_B]
   \<and> check_required_thumbnails ex_manifest ex_directory =
       check_required_thumbnails [ex_category_A, ex_category_B] ex_directory
   \<and> fst (snd (check_file_consistency [ex_category_bare] ex_directory)) = []
   \<and> check_duplicate_names [ex_category_bare] = (True, [])
   \<and> check_required_thumbnails [ex_category_bare] ex_directory = (True, [])"
proof -
  have none: "templates ex_category_bare = None" by (simp add: ex_category_bare_def)
  show ?thesis
    using C10_missing_templates_field[OF none, of "[ex_category_A]" "[ex_category_B]" ex_directory] none
    by (simp add: ex_manifest_def)
qed

end
